theory Spec2Isabelle
  imports Complex_Main "HOL-Library.AList"
begin

text \<open>
  A model of the task layer of the RAG pipeline service: the demo tasks of
  \<open>src/tasks/basic_tasks.py\<close>, the RAG task handlers and their services, the task
  endpoints of \<open>src/api/routes/tasks.py\<close>, the pipeline endpoint of
  \<open>src/api/routes/rag.py\<close> and the polling loop of \<open>scripts/python/test_tasks.py\<close>.
  The application runs its tasks on Celery. The Celery primitives the code calls
  (\<open>AsyncResult.ready\<close> and \<open>get\<close>, \<open>Task.retry\<close>, the worker's handling of a task body,
  \<open>chain\<close> and \<open>chord\<close>) are library code; each is modelled by one definition below, which
  says what behaviour of the library it stands for.
\<close>

section \<open>Python values and exceptions\<close>

text \<open>
  Exceptions deriving from Python's \<open>Exception\<close>; the string is \<open>str(e)\<close>.
  \<open>LibraryError\<close> stands for any other \<open>Exception\<close> subclass raised inside a library.
\<close>

datatype exc =
    ZeroDivisionError string
  | TypeError string
  | ValueError string
  | KeyError string
  | ChordError string
  | OverflowError string
  | LibraryError string

text \<open>
  The values that cross the task boundary are JSON values (the Celery application in
  \<open>src/core/celery_app.py\<close> is configured with the json serializer). A Python float is
  a finite double, represented by the rational it denotes.
\<close>

datatype pyval =
    PyNone
  | PyInt int
  | PyFloat rat
  | PyStr string
  | PyList "pyval list"
  | PyDict "(string \<times> pyval) list"
  | PyExc exc

fun str_exc :: "exc \<Rightarrow> string" where
  "str_exc (ZeroDivisionError m) = m"
| "str_exc (TypeError m) = m"
| "str_exc (ValueError m) = m"
| "str_exc (KeyError m) = m"
| "str_exc (ChordError m) = m"
| "str_exc (OverflowError m) = m"
| "str_exc (LibraryError m) = m"

section \<open>The result backend and \<open>AsyncResult\<close>\<close>

text \<open>
  Celery's task states, and the row the result backend keeps for a task id: the state
  and either the return value or the exception. The backend is a dictionary from task
  ids to rows. A task id with no row reads as \<open>PENDING\<close> with result \<open>None\<close>: this is
  what \<open>AsyncResult(task_id, app=celery_app)\<close> of \<open>get_task_result\<close> sees for an id
  nobody wrote.
\<close>

datatype state = PENDING | STARTED | RETRY | SUCCESS | FAILURE | REVOKED

datatype payload = Value pyval | Error exc

datatype task_meta = Meta (meta_status: state) (meta_result: payload)

type_synonym backend = "string \<rightharpoonup> task_meta"

definition get_task_meta :: "backend \<Rightarrow> string \<Rightarrow> task_meta" where
  "get_task_meta b task_id =
     (case b task_id of None \<Rightarrow> Meta PENDING (Value PyNone) | Some m \<Rightarrow> m)"

text \<open>\<open>src/api/dependencies.py\<close>: \<open>get_task_result\<close> builds the handle and reads nothing yet;
  the handle is the pair of the backend and the id, and its reads go through
  \<open>get_task_meta\<close>.\<close>

definition get_task_result :: "backend \<Rightarrow> string \<Rightarrow> task_meta" where
  "get_task_result b task_id = get_task_meta b task_id"

text \<open>\<open>AsyncResult.ready()\<close>: the state is one of \<open>READY_STATES\<close>.\<close>

fun ready :: "task_meta \<Rightarrow> bool" where
  "ready (Meta s r) = (s = SUCCESS \<or> s = FAILURE \<or> s = REVOKED)"

text \<open>
  \<open>AsyncResult.get()\<close> on a ready result, with the default \<open>propagate=True\<close>: a row in
  one of the propagating states (\<open>FAILURE\<close>, \<open>REVOKED\<close>) re-raises the stored exception,
  any other row gives the stored value.
\<close>

fun get_ready :: "task_meta \<Rightarrow> exc + pyval" where
  "get_ready (Meta s r) =
     (if s = FAILURE \<or> s = REVOKED then
        (case r of
           Error e \<Rightarrow> Inl e
         | Value v \<Rightarrow> Inl (TypeError ''exceptions must derive from BaseException''))
      else (case r of Value v \<Rightarrow> Inr v | Error e \<Rightarrow> Inr (PyExc e)))"

section \<open>\<open>src/api/schemas.py\<close> and the status endpoint of \<open>src/api/routes/tasks.py\<close>\<close>

record TaskStatusResponse =
  task_id :: string
  status :: string
  result :: "pyval option"

text \<open>
  \<open>get_task_status\<close>: an exception raised by \<open>task_result.get()\<close> is not caught in the
  handler, so it leaves the handler (\<open>Inl\<close>).
\<close>

definition get_task_status :: "backend \<Rightarrow> string \<Rightarrow> exc + TaskStatusResponse" where
  "get_task_status b tid =
     (let task_result = get_task_result b tid in
      if ready task_result then
        (case get_ready task_result of
           Inl e \<Rightarrow> Inl e
         | Inr v \<Rightarrow> Inr \<lparr>task_id = tid, status = ''Completed'', result = Some v\<rparr>)
      else Inr \<lparr>task_id = tid, status = ''Pending'', result = None\<rparr>)"

section \<open>\<open>src/tasks/basic_tasks.py\<close>\<close>

text \<open>Python's \<open>+\<close>, \<open>== 0\<close> and \<open>/\<close> on the values above.\<close>

definition py_add :: "pyval \<Rightarrow> pyval \<Rightarrow> exc + pyval" where
  "py_add x y =
     (case x of
        PyInt a \<Rightarrow>
          (case y of
             PyInt b \<Rightarrow> Inr (PyInt (a + b))
           | PyFloat b \<Rightarrow> Inr (PyFloat (of_int a + b))
           | _ \<Rightarrow> Inl (TypeError ''unsupported operand type(s) for +''))
      | PyFloat a \<Rightarrow>
          (case y of
             PyInt b \<Rightarrow> Inr (PyFloat (a + of_int b))
           | PyFloat b \<Rightarrow> Inr (PyFloat (a + b))
           | _ \<Rightarrow> Inl (TypeError ''unsupported operand type(s) for +''))
      | PyStr a \<Rightarrow>
          (case y of
             PyStr b \<Rightarrow> Inr (PyStr (a @ b))
           | _ \<Rightarrow> Inl (TypeError ''can only concatenate str to str''))
      | PyList a \<Rightarrow>
          (case y of
             PyList b \<Rightarrow> Inr (PyList (a @ b))
           | _ \<Rightarrow> Inl (TypeError ''can only concatenate list to list''))
      | _ \<Rightarrow> Inl (TypeError ''unsupported operand type(s) for +''))"

fun py_eq_zero :: "pyval \<Rightarrow> bool" where
  "py_eq_zero (PyInt a) = (a = 0)"
| "py_eq_zero (PyFloat a) = (a = 0)"
| "py_eq_zero a = False"

text \<open>A number as the rational it denotes; \<open>None\<close> for a value that is not a number.\<close>

fun py_number :: "pyval \<Rightarrow> rat option" where
  "py_number (PyInt a) = Some (of_int a)"
| "py_number (PyFloat a) = Some a"
| "py_number v = None"

text \<open>
  \<open>a / b\<close> on two ints with \<open>b \<noteq> 0\<close> is the double nearest to the quotient, ties to
  even, and \<open>OverflowError\<close> when that double would lie beyond the largest finite one.
  \<open>bit_length\<close> is \<open>int.bit_length\<close>; \<open>fl\<close> below is the floor of the binary logarithm of
  \<open>\<bar>a\<bar> / \<bar>b\<bar>\<close>; the quotient is rounded to an integer multiple \<open>m\<close> of \<open>2 ^ e\<close>, with 53
  significant bits, or with \<open>e = - 1074\<close> in the subnormal range.
\<close>

fun bit_length :: "nat \<Rightarrow> nat" where
  "bit_length n = (if n = 0 then 0 else Suc (bit_length (n div 2)))"

declare bit_length.simps [simp del]

definition round_half_even :: "int \<Rightarrow> int \<Rightarrow> int" where
  "round_half_even n d =
     (let t = n div d; r = n mod d
      in if 2 * r < d then t else if d < 2 * r then t + 1 else if even t then t else t + 1)"

definition int_true_divide :: "int \<Rightarrow> int \<Rightarrow> exc + rat" where
  "int_true_divide a b =
     (let p = \<bar>a\<bar>; q = \<bar>b\<bar>;
          k = int (bit_length (nat p)) - int (bit_length (nat q));
          fl = (if q * 2 ^ nat k \<le> p * 2 ^ nat (- k) then k else k - 1);
          e = max (fl - 52) (- 1074);
          m = round_half_even (p * 2 ^ nat (- e)) (q * 2 ^ nat e)
      in if p = 0 then Inr 0
         else if 2 ^ 1024 \<le> m * 2 ^ nat e
         then Inl (OverflowError ''integer division result too large for a float'')
         else Inr (of_int (sgn a * sgn b * m) * 2 ^ nat e / 2 ^ nat (- e)))"

text \<open>
  \<open>x / y\<close>. Every producer in the repository passes ints to the divide task (the request
  fields are ints, and the chain carries the int sum of add), which is the first case.
  With a float operand the quotient is taken on the rationals the operands denote; it
  is the Python result whenever that quotient is itself a double.
\<close>

definition py_truediv :: "pyval \<Rightarrow> pyval \<Rightarrow> exc + pyval" where
  "py_truediv x y =
     (case (x, y) of
        (PyInt a, PyInt b) \<Rightarrow>
          (if b = 0 then Inl (ZeroDivisionError ''division by zero'')
           else (case int_true_divide a b of Inl e \<Rightarrow> Inl e | Inr r \<Rightarrow> Inr (PyFloat r)))
      | _ \<Rightarrow>
          (case (py_number x, py_number y) of
             (Some a, Some b) \<Rightarrow>
               (if b = 0 then Inl (ZeroDivisionError ''float division by zero'')
                else Inr (PyFloat (a / b)))
           | _ \<Rightarrow> Inl (TypeError ''unsupported operand type(s) for /'')))"

text \<open>
  What one execution of a task body ends with: a return value, an exception, or the
  \<open>Retry\<close> exception of \<open>self.retry\<close>, which carries the countdown of the re-enqueued
  message.
\<close>

datatype outcome = Returned pyval | Raised exc | Retried exc nat

text \<open>
  \<open>Task.retry(exc=exc, countdown=countdown)\<close>: with \<open>retries = request.retries + 1\<close>, the
  call raises \<open>exc\<close> itself once \<open>retries > max_retries\<close>; otherwise it re-sends the task
  with the countdown and raises \<open>Retry\<close>. \<open>max_retries = None\<close> never gives up.
\<close>

definition retry :: "nat option \<Rightarrow> nat \<Rightarrow> exc \<Rightarrow> nat \<Rightarrow> outcome" where
  "retry max_retries request_retries e countdown =
     (case max_retries of
        None \<Rightarrow> Retried e countdown
      | Some m \<Rightarrow> if request_retries + 1 > m then Raised e else Retried e countdown)"

definition add_numbers_task :: "pyval \<Rightarrow> pyval \<Rightarrow> outcome" where
  "add_numbers_task x y = (case py_add x y of Inl e \<Rightarrow> Raised e | Inr v \<Rightarrow> Returned v)"

text \<open>
  \<open>divide_numbers_task\<close> is bound (\<open>self.request.retries\<close>) and declares \<open>max_retries=5\<close>.
  Only \<open>ZeroDivisionError\<close> is caught; the handler computes \<open>countdown = 2**retries\<close> and
  calls \<open>self.retry\<close>.
\<close>

definition divide_max_retries :: "nat option" where
  "divide_max_retries = Some 5"

definition divide_numbers_task :: "nat \<Rightarrow> pyval \<Rightarrow> pyval \<Rightarrow> outcome" where
  "divide_numbers_task request_retries x y =
     (case (if py_eq_zero y then Inl (ZeroDivisionError ''Cannot divide by zero'')
            else py_truediv x y) of
        Inr v \<Rightarrow> Returned v
      | Inl (ZeroDivisionError m) \<Rightarrow>
          retry divide_max_retries request_retries (ZeroDivisionError m) (2 ^ request_retries)
      | Inl e \<Rightarrow> Raised e)"

text \<open>
  \<open>aggregate_results_task\<close> is \<open>sum(results)\<close>: the fold of \<open>+\<close> from the int 0 over the
  items of \<open>results\<close>. A list gives its elements, a string its characters, a dictionary
  its keys; any other value here cannot be iterated. The texts of the \<open>TypeError\<close>s are
  shortened: Python appends the names of the operand types.
\<close>

fun py_sum :: "pyval \<Rightarrow> pyval list \<Rightarrow> exc + pyval" where
  "py_sum acc [] = Inr acc"
| "py_sum acc (v # vs) = (case py_add acc v of Inl e \<Rightarrow> Inl e | Inr acc' \<Rightarrow> py_sum acc' vs)"

fun py_iter :: "pyval \<Rightarrow> pyval list option" where
  "py_iter (PyList xs) = Some xs"
| "py_iter (PyStr cs) = Some (map (\<lambda>c. PyStr [c]) cs)"
| "py_iter (PyDict d) = Some (map (\<lambda>kv. PyStr (fst kv)) d)"
| "py_iter v = None"

definition aggregate_results_task :: "pyval \<Rightarrow> outcome" where
  "aggregate_results_task results =
     (case py_iter results of
        None \<Rightarrow> Raised (TypeError ''object is not iterable'')
      | Some items \<Rightarrow>
          (case py_sum (PyInt 0) items of Inl e \<Rightarrow> Raised e | Inr v \<Rightarrow> Returned v))"

section \<open>Signatures and the worker\<close>

text \<open>
  A signature (\<open>task.s(args).set(queue=queue)\<close>) is the task object, its positional
  arguments and the queue option. The worker calls the task body with the arguments
  of the message; an argument list of the wrong length is a \<open>TypeError\<close> of the call.
\<close>

datatype task = Task_add_numbers | Task_divide_numbers | Task_aggregate_results

record signature =
  task :: task
  args :: "pyval list"
  queue :: string

definition call_task :: "task \<Rightarrow> nat \<Rightarrow> pyval list \<Rightarrow> outcome" where
  "call_task t request_retries as =
     (case t of
        Task_add_numbers \<Rightarrow>
          (case as of
             [x, y] \<Rightarrow> add_numbers_task x y
           | _ \<Rightarrow> Raised (TypeError ''add_numbers_task() takes 2 positional arguments''))
      | Task_divide_numbers \<Rightarrow>
          (case as of
             [x, y] \<Rightarrow> divide_numbers_task request_retries x y
           | _ \<Rightarrow> Raised (TypeError ''divide_numbers_task() takes 3 positional arguments''))
      | Task_aggregate_results \<Rightarrow>
          (case as of
             [results] \<Rightarrow> aggregate_results_task results
           | _ \<Rightarrow> Raised (TypeError ''aggregate_results_task() takes 1 positional argument'')))"

text \<open>
  The worker executes a message until the task settles: a returned value is stored as
  \<open>SUCCESS\<close>, an exception as \<open>FAILURE\<close>, and a \<open>Retry\<close> makes the re-sent message run
  with \<open>request.retries + 1\<close> after its countdown. The result is the terminal row together
  with the countdowns of the retries, in order. A body that asks for a retry at every
  attempt never settles, hence the option. The rows are those of attempts that end by
  themselves: how long an attempt runs is not part of the model, so the hard time limit
  of \<open>src/core/celery_app.py\<close> (\<open>task_time_limit=3600\<close>), at which the worker kills the
  attempt and stores \<open>FAILURE\<close>, has no counterpart here.
\<close>

partial_function (option) run_task :: "(nat \<Rightarrow> outcome) \<Rightarrow> nat \<Rightarrow> (task_meta \<times> nat list) option" where
  "run_task body request_retries =
     (case body request_retries of
        Returned v \<Rightarrow> Some (Meta SUCCESS (Value v), [])
      | Raised e \<Rightarrow> Some (Meta FAILURE (Error e), [])
      | Retried e countdown \<Rightarrow>
          Option.bind (run_task body (Suc request_retries))
            (\<lambda>(m, countdowns). Some (m, countdown # countdowns)))"

definition run_signature :: "signature \<Rightarrow> (task_meta \<times> nat list) option" where
  "run_signature s = run_task (\<lambda>request_retries. call_task (task s) request_retries (args s)) 0"

section \<open>Queue configuration\<close>

text \<open>
  Modelled from the spec: \<open>src/core/queues.py\<close>, which defines \<open>AVAILABLE_QUEUES\<close>,
  \<open>QUEUE_DESCRIPTIONS\<close>, \<open>TASK_ROUTES\<close> and \<open>get_queue_for_task\<close>, is missing from the
  sources. The tables are parameters (the list of a dictionary's items, in order), and
  \<open>get_queue_for_task\<close> follows the spec's Route Table: "a task name absent from the
  table falls back to a default queue".
\<close>

record queues =
  AVAILABLE_QUEUES :: "string list"
  QUEUE_DESCRIPTIONS :: "(string \<times> string) list"
  TASK_ROUTES :: "(string \<times> string) list"
  DEFAULT_QUEUE :: string

definition get_queue_for_task :: "queues \<Rightarrow> string \<Rightarrow> string" where
  "get_queue_for_task q task_name =
     (case map_of (TASK_ROUTES q) task_name of None \<Rightarrow> DEFAULT_QUEUE q | Some qn \<Rightarrow> qn)"

text \<open>The task names registered with the Celery application by the decorators of
  \<open>src/tasks/*.py\<close>.\<close>

definition registered_task_names :: "string list" where
  "registered_task_names =
     [''tasks.process_data'', ''tasks.add_numbers'', ''tasks.divide_numbers'',
      ''tasks.aggregate_results'', ''tasks.load_pdf'', ''tasks.split_documents'',
      ''tasks.create_vectorstore'', ''tasks.query_vectorstore'']"

text \<open>
  Modelled from the spec: the contents of \<open>TASK_ROUTES\<close> (\<open>src/core/queues.py\<close> is missing).
  The spec's Route Table is a "mapping from task name to queue name" and its listing
  "contains an entry for every registered Task Definition": one item per registered
  task name, in registration order, with the queue the static configuration gives it
  (\<open>queue_of\<close>, a parameter).
\<close>

definition route_table :: "(string \<Rightarrow> string) \<Rightarrow> (string \<times> string) list" where
  "route_table queue_of = map (\<lambda>name. (name, queue_of name)) registered_task_names"

text \<open>\<open>get_task_info\<close> of \<open>src/api/routes/tasks.py\<close>: \<open>QUEUE_DESCRIPTIONS.get(queue, "")\<close> for
  every available queue, and one entry for every item of \<open>TASK_ROUTES\<close>.\<close>

record task_info =
  info_queues :: "(string \<times> string) list"
  info_tasks :: "(string \<times> string) list"

definition get_task_info :: "queues \<Rightarrow> task_info" where
  "get_task_info q =
     \<lparr>info_queues =
        map (\<lambda>qn. (qn, case map_of (QUEUE_DESCRIPTIONS q) qn of
                                 None \<Rightarrow> [] | Some d \<Rightarrow> d))
          (AVAILABLE_QUEUES q),
      info_tasks = map (\<lambda>(task_name, qn). (task_name, qn)) (TASK_ROUTES q)\<rparr>"

section \<open>The chain workflow\<close>





section \<open>The chord workflow\<close>

text \<open>
  \<open>execute_parallel_workflow\<close> builds the header \<open>group(add.s(x, y), divide.s(x, z))\<close>
  and the callback \<open>aggregate.s()\<close>.
\<close>

definition execute_parallel_workflow :: "queues \<Rightarrow> int \<Rightarrow> int \<Rightarrow> int \<Rightarrow> signature list \<times> signature" where
  "execute_parallel_workflow q x y z =
     (let qn = get_queue_for_task q ''tasks.add_numbers'' in
      ([\<lparr>task = Task_add_numbers, args = [PyInt x, PyInt y], queue = qn\<rparr>,
        \<lparr>task = Task_divide_numbers, args = [PyInt x, PyInt z], queue = qn\<rparr>],
       \<lparr>task = Task_aggregate_results, args = [], queue = qn\<rparr>))"

text \<open>
  The chord barrier kept in the result backend (the Redis backend with its default
  \<open>result_chord_ordered\<close>): one slot per header member, filled at the member's position
  in the header when the member settles, and a counter of the parts returned. \<open>callback_calls\<close> collects the argument lists the callback was submitted
  with; \<open>chord_error\<close> is the \<open>ChordError\<close> written to the callback's id instead.
\<close>

record chord_state =
  slots :: "task_meta option list"
  readycount :: nat
  callback_calls :: "pyval list list"
  chord_error :: "exc option"

definition chord_init :: "nat \<Rightarrow> chord_state" where
  "chord_init n =
     \<lparr>slots = replicate n None, readycount = 0, callback_calls = [], chord_error = None\<rparr>"

text \<open>Unpacking a stored part: a part in a propagating state raises \<open>ChordError\<close>.\<close>

fun unpack_chord_result :: "task_meta \<Rightarrow> exc + pyval" where
  "unpack_chord_result (Meta s (Value v)) = Inr v"
| "unpack_chord_result (Meta s (Error e)) =
     (if s = FAILURE \<or> s = REVOKED then Inl (ChordError (''Dependency raised '' @ str_exc e))
      else Inr (PyExc e))"

fun unpack_all :: "task_meta list \<Rightarrow> exc + pyval list" where
  "unpack_all [] = Inr []"
| "unpack_all (m # ms) =
     (case unpack_chord_result m of
        Inl e \<Rightarrow> Inl e
      | Inr v \<Rightarrow> (case unpack_all ms of Inl e \<Rightarrow> Inl e | Inr vs \<Rightarrow> Inr (v # vs)))"

text \<open>
  \<open>on_chord_part_return\<close>, run by the worker when header member \<open>i\<close> settles with row \<open>m\<close>:
  store the part at its index, increment the counter, and when the counter reaches the
  header size unpack the stored parts in index order and submit the callback with the
  list in front of its arguments, or record the \<open>ChordError\<close>.
\<close>

definition on_chord_part_return :: "nat \<Rightarrow> signature \<Rightarrow> nat \<times> task_meta \<Rightarrow> chord_state \<Rightarrow> chord_state" where
  "on_chord_part_return n callback part st =
     (let slots' = (slots st)[fst part := Some (snd part)];
          readycount' = readycount st + 1;
          st' = st\<lparr>slots := slots', readycount := readycount'\<rparr>
      in if readycount' = n then
           (case unpack_all (List.map_filter id slots') of
              Inl e \<Rightarrow> st'\<lparr>chord_error := Some e\<rparr>
            | Inr vs \<Rightarrow> st'\<lparr>callback_calls := callback_calls st' @ [PyList vs # args callback]\<rparr>)
         else st')"

text \<open>
  A run of the chord: every header member runs to its terminal row, and the members
  report their parts in the order \<open>order\<close> (a list of header positions), which is the
  interleaving of their completions.
\<close>

definition chord_barrier :: "task_meta list \<Rightarrow> signature \<Rightarrow> nat list \<Rightarrow> chord_state" where
  "chord_barrier rows callback order =
     fold (on_chord_part_return (length rows) callback)
       (map (\<lambda>i. (i, rows ! i)) order) (chord_init (length rows))"

definition run_chord :: "signature list \<times> signature \<Rightarrow> nat list \<Rightarrow> chord_state option" where
  "run_chord c order =
     Option.bind (those (map run_signature (fst c)))
       (\<lambda>rs. Some (chord_barrier (map fst rs) (snd c) order))"

text \<open>
  \<open>chord(header)(callback)\<close> returns the handle of the callback. Its row is the
  \<open>ChordError\<close> if one was recorded, the terminal row of the callback's last submission
  if it was submitted, and absent otherwise.
\<close>

definition chord_result :: "signature \<Rightarrow> chord_state \<Rightarrow> task_meta option" where
  "chord_result callback st =
     (case chord_error st of
        Some e \<Rightarrow> Some (Meta FAILURE (Error e))
      | None \<Rightarrow>
          (if callback_calls st = [] then Some (Meta PENDING (Value PyNone))
           else map_option fst (run_signature (callback\<lparr>args := last (callback_calls st)\<rparr>))))"

section \<open>Waiting for a result\<close>

text \<open>
  \<open>AsyncResult.get()\<close> without a timeout, as \<open>src/api/routes/rag.py\<close> calls it: the
  backend is read again and again until the row is ready. \<open>poll n\<close> is the row the
  \<open>n\<close>-th read finds. The loop has no bound, so a result that is never ready gives no
  return at all (\<open>None\<close>).
\<close>

partial_function (option) wait_for :: "(nat \<Rightarrow> task_meta) \<Rightarrow> nat \<Rightarrow> task_meta option" where
  "wait_for poll n = (if ready (poll n) then Some (poll n) else wait_for poll (Suc n))"

text \<open>The reads of a task that no worker ever settles.\<close>

definition never_ready :: "nat \<Rightarrow> task_meta" where
  "never_ready n = Meta PENDING (Value PyNone)"

text \<open>The reads of a task that a worker settles with row \<open>m\<close> just before read \<open>k\<close>.\<close>

definition settled_at :: "nat \<Rightarrow> task_meta \<Rightarrow> nat \<Rightarrow> task_meta" where
  "settled_at k m n = (if n < k then Meta PENDING (Value PyNone) else m)"

definition AsyncResult_get :: "(nat \<Rightarrow> task_meta) \<Rightarrow> (exc + pyval) option" where
  "AsyncResult_get poll = Option.bind (wait_for poll 0) (\<lambda>m. Some (get_ready m))"

text \<open>Subscription \<open>d[key]\<close> with a string key.\<close>

fun py_getitem :: "pyval \<Rightarrow> string \<Rightarrow> exc + pyval" where
  "py_getitem (PyDict d) k = (case map_of d k of None \<Rightarrow> Inl (KeyError k) | Some v \<Rightarrow> Inr v)"
| "py_getitem v k = Inl (TypeError ''object is not subscriptable with a string'')"

subsection \<open>\<open>run_rag_pipeline\<close> of \<open>src/api/routes/rag.py\<close>\<close>

record RAGPipelineRequest =
  pdf_path :: string
  chunk_size :: int
  chunk_overlap :: int
  persist_directory :: string

datatype http_error = HTTPException nat pyval

record RAGPipelineResponse =
  pipeline_status :: string
  pipeline_message :: string
  task_ids :: "(string \<times> string) list"
  pipeline_config :: RAGPipelineRequest

definition pipeline_error :: "exc \<Rightarrow> http_error" where
  "pipeline_error e = HTTPException 500 (PyStr (''Pipeline error: '' @ str_exc e))"

text \<open>
  One synchronous step of the pipeline: wait for the task, then raise
  \<open>HTTPException(400, result["message"])\<close> when \<open>result["status"] == "error"\<close>, else hand
  \<open>result[field]\<close> on. Any other exception becomes the 500 of the outer handler.
\<close>

definition pipeline_step :: "(nat \<Rightarrow> task_meta) \<Rightarrow> string \<Rightarrow> (http_error + pyval) option" where
  "pipeline_step poll field =
     Option.bind (AsyncResult_get poll)
       (\<lambda>got. Some
          (case got of
             Inl e \<Rightarrow> Inl (pipeline_error e)
           | Inr res \<Rightarrow>
               (case py_getitem res ''status'' of
                  Inl e \<Rightarrow> Inl (pipeline_error e)
                | Inr st \<Rightarrow>
                    if st = PyStr ''error'' then
                      (case py_getitem res ''message'' of
                         Inl e \<Rightarrow> Inl (pipeline_error e)
                       | Inr msg \<Rightarrow> Inl (HTTPException 400 msg))
                    else
                      (case py_getitem res field of
                         Inl e \<Rightarrow> Inl (pipeline_error e)
                       | Inr v \<Rightarrow> Inr v))))"

text \<open>
  \<open>run_rag_pipeline\<close>: \<open>ids\<close> are the ids of the three submitted tasks, \<open>pdf_poll\<close> and
  \<open>transform_poll\<close> the successive reads of the first two results.
\<close>

definition run_rag_pipeline ::
  "string \<times> string \<times> string \<Rightarrow> RAGPipelineRequest \<Rightarrow> (nat \<Rightarrow> task_meta) \<Rightarrow> (nat \<Rightarrow> task_meta)
     \<Rightarrow> (http_error + RAGPipelineResponse) option" where
  "run_rag_pipeline ids request pdf_poll transform_poll =
     Option.bind (pipeline_step pdf_poll ''documents'')
       (\<lambda>pdf. case pdf of
          Inl h \<Rightarrow> Some (Inl h)
        | Inr documents \<Rightarrow>
            Option.bind (pipeline_step transform_poll ''chunks'')
              (\<lambda>tr. case tr of
                 Inl h \<Rightarrow> Some (Inl h)
               | Inr chunks \<Rightarrow>
                   Some (Inr
                     \<lparr>pipeline_status = ''vectorstore_task_running'',
                      pipeline_message =
                        ''PDF and transform tasks completed. Vectorstore creation in progress.'',
                      task_ids =
                        [(''pdf_task_id'', fst ids),
                         (''transform_task_id'', fst (snd ids)),
                         (''vectorstore_task_id'', snd (snd ids))],
                      pipeline_config = request\<rparr>)))"

subsection \<open>\<open>check_task_status\<close> of \<open>scripts/python/test_tasks.py\<close>\<close>

text \<open>
  One HTTP round trip to the status endpoint either raises a \<open>RequestException\<close> or gives
  the JSON object of the response. The loop runs over \<open>range(1, max_attempts + 1)\<close>,
  returns the data at the first "Completed", returns \<open>None\<close> at the first
  \<open>RequestException\<close>, and sleeps two seconds after every other poll.
\<close>

datatype http_reply = RequestException | Reply "(string \<times> pyval) list"

record check_run =
  returned :: "(string \<times> pyval) list option"
  polls :: nat
  sleeps :: nat

fun check_attempts :: "(nat \<Rightarrow> http_reply) \<Rightarrow> nat \<Rightarrow> nat \<Rightarrow> check_run" where
  "check_attempts http attempt 0 = \<lparr>returned = None, polls = 0, sleeps = 0\<rparr>"
| "check_attempts http attempt (Suc k) =
     (case http attempt of
        RequestException \<Rightarrow> \<lparr>returned = None, polls = 1, sleeps = 0\<rparr>
      | Reply data \<Rightarrow>
          if map_of data ''status'' = Some (PyStr ''Completed'')
          then \<lparr>returned = Some data, polls = 1, sleeps = 0\<rparr>
          else (let r = check_attempts http (Suc attempt) k
                in r\<lparr>polls := Suc (polls r), sleeps := Suc (sleeps r)\<rparr>))"

definition check_task_status :: "(nat \<Rightarrow> http_reply) \<Rightarrow> int \<Rightarrow> check_run" where
  "check_task_status http max_attempts = check_attempts http 1 (nat max_attempts)"

text \<open>A reply ends the loop when it is a \<open>RequestException\<close> or says "Completed"; what the
  function then returns is the data of the reply, or \<open>None\<close> for the exception.\<close>

definition ends_loop :: "http_reply \<Rightarrow> bool" where
  "ends_loop r =
     (case r of
        RequestException \<Rightarrow> True
      | Reply data \<Rightarrow> map_of data ''status'' = Some (PyStr ''Completed''))"

definition reply_data :: "http_reply \<Rightarrow> (string \<times> pyval) list option" where
  "reply_data r = (case r of RequestException \<Rightarrow> None | Reply data \<Rightarrow> Some data)"

text \<open>
  What the script receives from the status endpoint: the JSON object of a
  \<open>TaskStatusResponse\<close>, or, when the handler raised, a 500 that \<open>raise_for_status\<close> turns
  into a \<open>RequestException\<close>. \<open>polled_status poll tid\<close> are the replies for a task whose row
  is \<open>poll attempt\<close> at the time of each attempt.
\<close>

definition status_reply :: "exc + TaskStatusResponse \<Rightarrow> http_reply" where
  "status_reply res =
     (case res of
        Inl e \<Rightarrow> RequestException
      | Inr r \<Rightarrow>
          Reply [(''task_id'', PyStr (task_id r)),
                 (''status'', PyStr (status r)),
                 (''result'', case result r of None \<Rightarrow> PyNone | Some v \<Rightarrow> v)])"

definition polled_status :: "(nat \<Rightarrow> task_meta) \<Rightarrow> string \<Rightarrow> nat \<Rightarrow> http_reply" where
  "polled_status poll tid attempt =
     status_reply (get_task_status (Map.empty(tid \<mapsto> poll attempt)) tid)"

section \<open>The RAG services and their task handlers\<close>

text \<open>Decimal \<open>str(n)\<close> of a length, for the f-strings of the handlers.\<close>

fun str_nat :: "nat \<Rightarrow> string" where
  "str_nat n =
     (if n < 10 then [char_of (48 + n)]
      else str_nat (n div 10) @ [char_of (48 + n mod 10)])"

declare str_nat.simps [simp del]

text \<open>\<open>f"{v}"\<close> of a value read back from a dictionary. The handlers format ints only;
  the last equation stands for the \<open>str\<close> of any other object.\<close>

fun py_format :: "pyval \<Rightarrow> string" where
  "py_format (PyInt i) = (if i < 0 then CHR ''-'' # str_nat (nat (- i)) else str_nat (nat i))"
| "py_format (PyStr t) = t"
| "py_format v = ''<object>''"

text \<open>
  The settings of \<open>src/core/config.py\<close> the services read (environment variables may
  override the defaults, so they are a parameter), and the library calls the services
  make, each of which returns or raises: the PDF loader, the text splitter, Chroma
  (\<open>from_documents\<close> gives the collection's name and id, \<open>collection_count\<close> the count of a
  loaded store), the retriever and the LLM chain.
\<close>

record settings =
  settings_chunk_size :: int
  settings_chunk_overlap :: int
  retrieval_top_k :: int

type_synonym document = "pyval \<times> pyval"

record libraries =
  pdf_loader :: "string \<Rightarrow> exc + document list"
  text_splitter :: "int \<Rightarrow> int \<Rightarrow> document list \<Rightarrow> exc + document list"
  from_documents :: "document list \<Rightarrow> string \<Rightarrow> exc + (pyval \<times> pyval)"
  collection_count :: "string \<Rightarrow> exc + nat"
  retriever :: "string \<Rightarrow> int \<Rightarrow> string \<Rightarrow> exc + document list"
  rag_chain :: "string \<Rightarrow> int \<Rightarrow> string \<Rightarrow> exc + string"

definition doc_dict :: "document \<Rightarrow> pyval" where
  "doc_dict d = PyDict [(''page_content'', fst d), (''metadata'', snd d)]"

text \<open>\<open>Document(page_content=doc["page_content"], metadata=doc["metadata"])\<close> for every
  element, stopping at the first exception.\<close>

fun doc_objects :: "pyval list \<Rightarrow> exc + document list" where
  "doc_objects [] = Inr []"
| "doc_objects (d # ds) =
     (case py_getitem d ''page_content'' of
        Inl e \<Rightarrow> Inl e
      | Inr c \<Rightarrow>
          (case py_getitem d ''metadata'' of
             Inl e \<Rightarrow> Inl e
           | Inr m \<Rightarrow> (case doc_objects ds of Inl e \<Rightarrow> Inl e | Inr os \<Rightarrow> Inr ((c, m) # os))))"

text \<open>\<open>a or b\<close> on an optional int: \<open>None\<close> and 0 are falsy.\<close>

definition py_or :: "int option \<Rightarrow> int \<Rightarrow> int" where
  "py_or a b = (case a of None \<Rightarrow> b | Some v \<Rightarrow> if v = 0 then b else v)"

subsection \<open>\<open>src/services/document_service.py\<close> and \<open>src/tasks/document_tasks.py\<close>\<close>

definition load_pdf :: "libraries \<Rightarrow> string \<Rightarrow> exc + pyval list" where
  "load_pdf L path =
     (case pdf_loader L path of Inl e \<Rightarrow> Inl e | Inr docs \<Rightarrow> Inr (map doc_dict docs))"

definition split_documents ::
  "libraries \<Rightarrow> settings \<Rightarrow> pyval list \<Rightarrow> int option \<Rightarrow> int option \<Rightarrow> exc + pyval list" where
  "split_documents L S documents csize coverlap =
     (let csize' = py_or csize (settings_chunk_size S);
          coverlap' = py_or coverlap (settings_chunk_overlap S)
      in case doc_objects documents of
           Inl e \<Rightarrow> Inl e
         | Inr objs \<Rightarrow>
             (case text_splitter L csize' coverlap' objs of
                Inl e \<Rightarrow> Inl e
              | Inr chunks \<Rightarrow> Inr (map doc_dict chunks)))"

definition load_pdf_task :: "libraries \<Rightarrow> string \<Rightarrow> outcome" where
  "load_pdf_task L path =
     (case load_pdf L path of
        Inr documents \<Rightarrow>
          Returned (PyDict
            [(''status'', PyStr ''success''),
             (''message'', PyStr (''Successfully loaded '' @ str_nat (length documents) @ '' pages'')),
             (''documents'', PyList documents),
             (''doc_count'', PyInt (int (length documents)))])
      | Inl e \<Rightarrow>
          Returned (PyDict
            [(''status'', PyStr ''error''),
             (''message'', PyStr (''Error loading PDF: '' @ str_exc e)),
             (''documents'', PyList []),
             (''doc_count'', PyInt 0)]))"

definition split_documents_task ::
  "libraries \<Rightarrow> settings \<Rightarrow> pyval list \<Rightarrow> int option \<Rightarrow> int option \<Rightarrow> outcome" where
  "split_documents_task L S documents csize coverlap =
     (case split_documents L S documents csize coverlap of
        Inr chunks \<Rightarrow>
          Returned (PyDict
            [(''status'', PyStr ''success''),
             (''message'', PyStr (''Successfully created '' @ str_nat (length chunks) @ '' chunks'')),
             (''chunks'', PyList chunks),
             (''chunk_count'', PyInt (int (length chunks)))])
      | Inl e \<Rightarrow>
          Returned (PyDict
            [(''status'', PyStr ''error''),
             (''message'', PyStr (''Error splitting documents: '' @ str_exc e)),
             (''chunks'', PyList []),
             (''chunk_count'', PyInt 0)]))"

subsection \<open>\<open>src/services/vectorstore_service.py\<close> and \<open>src/tasks/vectorstore_tasks.py\<close>\<close>

definition create_vectorstore :: "libraries \<Rightarrow> pyval list \<Rightarrow> string \<Rightarrow> exc + (string \<times> pyval) list" where
  "create_vectorstore L chunks dir =
     (case doc_objects chunks of
        Inl e \<Rightarrow> Inl e
      | Inr objs \<Rightarrow>
          (case from_documents L objs dir of
             Inl e \<Rightarrow> Inl e
           | Inr db \<Rightarrow>
               Inr [(''collection_name'', fst db),
                    (''collection_id'', snd db),
                    (''chunk_count'', PyInt (int (length chunks)))]))"

text \<open>A dictionary display \<open>{k: v, ..., **result}\<close>: the items of \<open>result\<close> overwrite equal
  keys in place and are appended otherwise.\<close>

definition dict_unpack :: "(string \<times> pyval) list \<Rightarrow> (string \<times> pyval) list \<Rightarrow> (string \<times> pyval) list" where
  "dict_unpack d r = fold (\<lambda>(k, v). AList.update k v) r d"

definition create_vectorstore_task :: "libraries \<Rightarrow> pyval list \<Rightarrow> string \<Rightarrow> outcome" where
  "create_vectorstore_task L chunks dir =
     (case (case create_vectorstore L chunks dir of
              Inl e \<Rightarrow> Inl e
            | Inr res \<Rightarrow>
                (case py_getitem (PyDict res) ''chunk_count'' of
                   Inl e \<Rightarrow> Inl e
                 | Inr c \<Rightarrow>
                     Inr (dict_unpack
                       [(''status'', PyStr ''success''),
                        (''message'', PyStr (''Successfully created vectorstore with ''
                            @ py_format c @ '' chunks'')),
                        (''vectorstore_path'', PyStr dir)] res))) of
        Inr d \<Rightarrow> Returned (PyDict d)
      | Inl e \<Rightarrow>
          Returned (PyDict
            [(''status'', PyStr ''error''),
             (''message'', PyStr (''Error creating vectorstore: '' @ str_exc e)),
             (''vectorstore_path'', PyNone),
             (''chunk_count'', PyInt 0)]))"

subsection \<open>\<open>src/services/rag_service.py\<close> and \<open>src/tasks/rag_tasks.py\<close>\<close>

text \<open>\<open>doc.metadata.get("source", "Unknown")\<close>; metadata that is not a dictionary has no
  \<open>get\<close>.\<close>

fun doc_source :: "document \<Rightarrow> exc + pyval" where
  "doc_source (c, PyDict m) =
     Inr (case map_of m ''source'' of None \<Rightarrow> PyStr ''Unknown'' | Some v \<Rightarrow> v)"
| "doc_source (c, v) = Inl (LibraryError ''object has no attribute get'')"

fun doc_sources :: "document list \<Rightarrow> exc + pyval list" where
  "doc_sources [] = Inr []"
| "doc_sources (d # ds) =
     (case doc_source d of
        Inl e \<Rightarrow> Inl e
      | Inr v \<Rightarrow> (case doc_sources ds of Inl e \<Rightarrow> Inl e | Inr vs \<Rightarrow> Inr (v # vs)))"

text \<open>
  \<open>RAGService.query\<close>. The sources are \<open>list(set(...))\<close>; the order in which Python
  iterates a set is not specified, and \<open>remdups\<close> is one such order.
\<close>

definition query :: "libraries \<Rightarrow> settings \<Rightarrow> string \<Rightarrow> string \<Rightarrow> int option \<Rightarrow> exc + (string \<times> pyval) list" where
  "query L S question dir top_k =
     (let k = py_or top_k (retrieval_top_k S) in
      case collection_count L dir of
        Inl e \<Rightarrow> Inl e
      | Inr n \<Rightarrow>
          if n = 0 then Inl (ValueError (''Vectorstore at '' @ dir @ '' is empty''))
          else
            (case retriever L dir k question of
               Inl e \<Rightarrow> Inl e
             | Inr retrieved_docs \<Rightarrow>
                 if retrieved_docs = [] then Inl (ValueError ''No relevant documents found'')
                 else
                   (case rag_chain L dir k question of
                      Inl e \<Rightarrow> Inl e
                    | Inr answer \<Rightarrow>
                        (case doc_sources retrieved_docs of
                           Inl e \<Rightarrow> Inl e
                         | Inr srcs \<Rightarrow>
                             Inr [(''answer'', PyStr answer),
                                  (''retrieved_chunks'',
                                     PyList (map (\<lambda>d. PyDict [(''content'', fst d), (''metadata'', snd d)])
                                       retrieved_docs)),
                                  (''sources'', PyList (remdups srcs)),
                                  (''context_used'', PyInt (int (length retrieved_docs)))]))))"

definition query_vectorstore_task ::
  "libraries \<Rightarrow> settings \<Rightarrow> string \<Rightarrow> string \<Rightarrow> int option \<Rightarrow> outcome" where
  "query_vectorstore_task L S question dir top_k =
     (case query L S question dir top_k of
        Inr res \<Rightarrow>
          Returned (PyDict (dict_unpack
            [(''status'', PyStr ''success''), (''question'', PyStr question)] res))
      | Inl e \<Rightarrow>
          Returned (PyDict
            [(''status'', PyStr ''error''),
             (''message'', PyStr (''Error querying vectorstore: '' @ str_exc e)),
             (''answer'', PyNone),
             (''retrieved_chunks'', PyList []),
             (''sources'', PyList [])]))"

text \<open>The \<open>"status"\<close> entry of the dictionary a handler returns, if it returns one.\<close>

fun status_field :: "outcome \<Rightarrow> pyval option" where
  "status_field (Returned (PyDict d)) = map_of d ''status''"
| "status_field out = None"

text \<open>Any entry of the returned dictionary.\<close>

fun returned_field :: "outcome \<Rightarrow> string \<Rightarrow> pyval option" where
  "returned_field (Returned (PyDict d)) k = map_of d k"
| "returned_field out k = None"

section \<open>Helper lemmas\<close>

lemma settle_returned:
  "body 0 = Returned v \<Longrightarrow> run_task body 0 = Some (Meta SUCCESS (Value v), [])"
  by (subst run_task.simps) simp



text \<open>Division of ints by a nonzero int returns a float or raises \<open>OverflowError\<close>.\<close>

lemma float_or_overflow:
  "(\<exists>r. (if z then Inr u else if ov then Inl (OverflowError s) else Inr v) = Inr r) \<or>
   (\<exists>m. (if z then Inr u else if ov then Inl (OverflowError s) else Inr v) = Inl (OverflowError m))"
  by simp

lemma int_true_divide_cases:
  "(\<exists>r. int_true_divide a b = Inr r) \<or> (\<exists>m. int_true_divide a b = Inl (OverflowError m))"
  unfolding int_true_divide_def Let_def by (rule float_or_overflow)


lemma int_true_divide_10_2: "int_true_divide 10 2 = Inr 5"
  by (simp add: int_true_divide_def round_half_even_def bit_length.simps Let_def)

lemma divide_nonzero:
  "d \<noteq> 0 \<Longrightarrow> divide_numbers_task r (PyInt a) (PyInt d)
     = (case int_true_divide a d of Inl e \<Rightarrow> Raised e | Inr v \<Rightarrow> Returned (PyFloat v))"
  using int_true_divide_cases [of a d]
  by (auto simp: divide_numbers_task_def py_truediv_def)



text \<open>The barrier before the last part arrives: the parts returned so far sit at their
  header positions, and nothing has been submitted.\<close>

lemma map_filter_id_Some: "List.map_filter id (map Some xs) = xs"
  by (induction xs) (simp_all add: List.map_filter_simps)

lemma barrier_prefix:
  assumes "distinct xs" "set xs \<subseteq> {..<length rows}" "length xs < length rows"
  shows "fold (on_chord_part_return (length rows) cb) (map (\<lambda>i. (i, rows ! i)) xs)
           (chord_init (length rows))
         = \<lparr>slots = map (\<lambda>j. if j \<in> set xs then Some (rows ! j) else None) [0..<length rows],
            readycount = length xs, callback_calls = [], chord_error = None\<rparr>"
  using assms
proof (induction xs rule: rev_induct)
  case Nil
  show ?case by (simp add: chord_init_def map_replicate_trivial)
next
  case (snoc x xs)
  from snoc.prems have pre: "distinct xs" "set xs \<subseteq> {..<length rows}" "length xs < length rows"
    and x: "x < length rows" and ne: "Suc (length xs) \<noteq> length rows"
    by auto
  have upd: "(map (\<lambda>j. if j \<in> set xs then Some (rows ! j) else None) [0..<length rows])
                [x := Some (rows ! x)]
             = map (\<lambda>j. if j \<in> set (xs @ [x]) then Some (rows ! j) else None) [0..<length rows]"
    using x by (intro nth_equalityI) (auto simp: nth_list_update)
  show ?case
    using snoc.IH [OF pre] ne upd
    by (simp add: on_chord_part_return_def Let_def)
qed

text \<open>The barrier after every member has reported once, in any order.\<close>

lemma barrier_full:
  assumes d: "distinct order" and s: "set order = {..<length rows}" and ne: "rows \<noteq> []"
  shows "chord_barrier rows cb order
         = (case unpack_all rows of
              Inl e \<Rightarrow> \<lparr>slots = map Some rows, readycount = length rows,
                         callback_calls = [], chord_error = Some e\<rparr>
            | Inr vs \<Rightarrow> \<lparr>slots = map Some rows, readycount = length rows,
                          callback_calls = [PyList vs # args cb], chord_error = None\<rparr>)"
proof -
  from d s have len: "length order = length rows"
    using distinct_card [of order] by simp
  with ne obtain xs x where order: "order = xs @ [x]"
    by (cases order rule: rev_cases) auto
  from d s len order have pre: "distinct xs" "set xs \<subseteq> {..<length rows}" "length xs < length rows"
    and x: "x < length rows" and full: "Suc (length xs) = length rows"
    by auto
  have all: "\<And>j. j < length rows \<Longrightarrow> j \<in> set (xs @ [x])"
    using s order by auto
  have upd: "(map (\<lambda>j. if j \<in> set xs then Some (rows ! j) else None) [0..<length rows])
                [x := Some (rows ! x)] = map Some rows"
    using x all by (intro nth_equalityI) (auto simp: nth_list_update)
  show ?thesis
    unfolding chord_barrier_def order
    using barrier_prefix [OF pre, of cb] full upd
    by (simp add: on_chord_part_return_def Let_def map_filter_id_Some split: sum.splits)
qed

lemma unpack_Inl_ChordError: "unpack_chord_result m = Inl e' \<Longrightarrow> \<exists>msg. e' = ChordError msg"
  by (cases m rule: unpack_chord_result.cases) (auto split: if_splits)

lemma unpack_all_failed:
  "Meta FAILURE (Error e) \<in> set rows \<Longrightarrow> \<exists>msg. unpack_all rows = Inl (ChordError msg)"
proof (induction rows)
  case Nil then show ?case by simp
next
  case (Cons m rows)
  show ?case
  proof (cases "unpack_chord_result m")
    case (Inl e')
    with unpack_Inl_ChordError [OF Inl] show ?thesis by auto
  next
    case (Inr v)
    with Cons.prems have "Meta FAILURE (Error e) \<in> set rows" by auto
    from Cons.IH [OF this] Inr show ?thesis by auto
  qed
qed

lemma those_length: "those xs = Some ys \<Longrightarrow> length ys = length xs"
  by (induction xs arbitrary: ys) (auto split: option.splits)

lemma py_sum_non_number:
  "py_number acc \<noteq> None \<Longrightarrow> \<exists>v\<in>set vs. py_number v = None \<Longrightarrow>
     py_sum acc vs = Inl (TypeError ''unsupported operand type(s) for +'')"
proof (induction vs arbitrary: acc)
  case Nil then show ?case by simp
next
  case (Cons v vs)
  show ?case
  proof (cases "py_number v")
    case None
    with Cons.prems(1) show ?thesis
      by (cases acc; cases v) (simp_all add: py_add_def)
  next
    case (Some r)
    with Cons.prems(2) have rest: "\<exists>v\<in>set vs. py_number v = None" by auto
    from Some Cons.prems(1) obtain acc' where
      a: "py_add acc v = Inr acc'" and n: "py_number acc' \<noteq> None"
      by (cases acc; cases v) (simp_all add: py_add_def)
    from Cons.IH [OF n rest] a show ?thesis by simp
  qed
qed

lemma header_rows_10_5_2:
  "those (map run_signature (fst (execute_parallel_workflow q 10 5 2)))
     = Some [(Meta SUCCESS (Value (PyInt 15)), []), (Meta SUCCESS (Value (PyFloat 5)), [])]"
  by (simp add: execute_parallel_workflow_def Let_def run_signature_def call_task_def run_task.simps
      add_numbers_task_def py_add_def divide_nonzero int_true_divide_10_2)

lemma header_rows_10_5_0:
  "those (map run_signature (fst (execute_parallel_workflow q 10 5 0)))
     = Some [(Meta SUCCESS (Value (PyInt 15)), []),
             (Meta FAILURE (Error (ZeroDivisionError ''Cannot divide by zero'')), [1, 2, 4, 8, 16])]"
  by (simp add: execute_parallel_workflow_def Let_def run_signature_def call_task_def run_task.simps
      add_numbers_task_def py_add_def divide_numbers_task_def py_truediv_def retry_def
      divide_max_retries_def)

text \<open>The unbounded wait returns exactly when some read finds the row ready.\<close>

lemma wait_for_Some_ready:
  assumes h: "wait_for poll n = Some m"
  shows "\<exists>k. ready (poll k)"
  using h
proof (induction poll n m rule: wait_for.raw_induct)
  case (1 w poll n m)
  show ?case
  proof (cases "ready (poll n)")
    case True then show ?thesis by blast
  next
    case False
    have real: "wait_for poll n = wait_for poll (Suc n)"
      using False by (subst wait_for.simps) simp
    from 1 False have a: "w poll (Suc n) = Some m" by (simp split: if_splits)
    from 1 real have b: "wait_for poll (Suc n) = Some m" by simp
    from 1 a b show ?thesis by blast
  qed
qed (rule h)

lemma wait_never: "(\<And>k. \<not> ready (poll k)) \<Longrightarrow> wait_for poll n = None"
proof (cases "wait_for poll n")
  case None then show ?thesis .
next
  case (Some m)
  assume "\<And>k. \<not> ready (poll k)"
  with wait_for_Some_ready [OF Some] show ?thesis by blast
qed

lemma wait_ready: "ready (poll (n + d)) \<Longrightarrow> \<exists>k \<le> d. wait_for poll n = Some (poll (n + k))"
proof (induction d arbitrary: n)
  case 0 then show ?case by (subst wait_for.simps) simp
next
  case (Suc d)
  show ?case
  proof (cases "ready (poll n)")
    case True then show ?thesis by (subst wait_for.simps) (auto intro: exI[of _ 0])
  next
    case False
    from Suc.prems have "ready (poll (Suc n + d))" by simp
    from Suc.IH [OF this] obtain k where
      "k \<le> d" "wait_for poll (Suc n) = Some (poll (Suc n + k))" by blast
    with False show ?thesis by (subst wait_for.simps) (auto intro: exI[of _ "Suc k"])
  qed
qed

lemma check_attempts_bounded:
  "polls (check_attempts http a k) \<le> k \<and>
   sleeps (check_attempts http a k) \<le> polls (check_attempts http a k)"
  by (induction k arbitrary: a) (auto split: http_reply.splits simp: Let_def)



text \<open>The polling loop of the script, by the first reply that ends it.\<close>

lemma check_attempts_exhausted:
  "(\<And>i. a \<le> i \<Longrightarrow> i < a + k \<Longrightarrow> \<not> ends_loop (http i)) \<Longrightarrow>
     check_attempts http a k = \<lparr>returned = None, polls = k, sleeps = k\<rparr>"
proof (induction k arbitrary: a)
  case 0 show ?case by simp
next
  case (Suc k)
  have here: "\<not> ends_loop (http a)" using Suc.prems [of a] by simp
  have rest: "check_attempts http (Suc a) k = \<lparr>returned = None, polls = k, sleeps = k\<rparr>"
    using Suc.prems by (intro Suc.IH) simp_all
  from here rest show ?case
    by (cases "http a") (auto simp: ends_loop_def Let_def)
qed

lemma check_attempts_ended:
  "j < k \<Longrightarrow> (\<And>i. a \<le> i \<Longrightarrow> i < a + j \<Longrightarrow> \<not> ends_loop (http i)) \<Longrightarrow>
     ends_loop (http (a + j)) \<Longrightarrow>
     check_attempts http a k = \<lparr>returned = reply_data (http (a + j)), polls = Suc j, sleeps = j\<rparr>"
proof (induction j arbitrary: a k)
  case 0
  then obtain k' where k: "k = Suc k'" by (cases k) auto
  from "0.prems"(3) show ?case unfolding k
    by (cases "http a") (auto simp: ends_loop_def reply_data_def)
next
  case (Suc j)
  then obtain k' where k: "k = Suc k'" and jk: "j < k'" by (cases k) auto
  have here: "\<not> ends_loop (http a)" using Suc.prems(2) [of a] by simp
  have rest: "check_attempts http (Suc a) k'
                = \<lparr>returned = reply_data (http (Suc a + j)), polls = Suc j, sleeps = j\<rparr>"
    using Suc.prems jk by (intro Suc.IH) simp_all
  from here rest show ?case unfolding k
    by (cases "http a") (auto simp: ends_loop_def Let_def)
qed

lemma polled_pending:
  "\<not> ready (poll i) \<Longrightarrow> \<not> ends_loop (polled_status poll tid i)"
  by (simp add: polled_status_def status_reply_def get_task_status_def get_task_result_def
      get_task_meta_def ends_loop_def)

lemma map_of_keyed:
  "map_of (map (\<lambda>k. (k, f k)) ks) k = (if k \<in> set ks then Some (f k) else None)"
  by (induction ks) auto

section \<open>The status endpoint\<close>

text \<open>
  C1. The claim: polling a task that settled Failed gives the captured error as data
  in the response, never an exception. The code does otherwise. \<open>divide(10, 0)\<close> settles
  with a \<open>FAILURE\<close> row holding the \<open>ZeroDivisionError\<close>; that row is ready, so
  \<open>get_task_status\<close> calls \<open>task_result.get()\<close>, which re-raises the stored exception, and
  nothing in the handler catches it: the status read ends with the exception.
\<close>

theorem get_task_status_failed_raises:
  "run_signature \<lparr>task = Task_divide_numbers, args = [PyInt 10, PyInt 0], queue = ''celery''\<rparr>
     = Some (Meta FAILURE (Error (ZeroDivisionError ''Cannot divide by zero'')), [1, 2, 4, 8, 16]) \<and>
   get_task_status (Map.empty(''t1'' \<mapsto> Meta FAILURE (Error (ZeroDivisionError ''Cannot divide by zero'')))) ''t1'' = Inl (ZeroDivisionError ''Cannot divide by zero'')"
  by (simp add: run_signature_def call_task_def run_task.simps divide_numbers_task_def retry_def
      divide_max_retries_def get_task_status_def get_task_result_def get_task_meta_def)

text \<open>
  C6, as claimed: a status read of a task id that was never recorded returns NotFound,
  distinguishable from Pending. It does not: the read of an id with no row answers
  "Pending", the very response a recorded, not yet started task gets.
\<close>

theorem unknown_id_reads_pending_counterexample:
  "get_task_status Map.empty ''never-submitted''
     = Inr \<lparr>task_id = ''never-submitted'', status = ''Pending'', result = None\<rparr> \<and>
   get_task_status Map.empty ''never-submitted''
     = get_task_status (Map.empty(''never-submitted'' \<mapsto> Meta PENDING (Value PyNone)))
         ''never-submitted''"
  by (simp add: get_task_status_def get_task_result_def get_task_meta_def)

text \<open>
  C6, amended: for every task id with no row in the backend (never recorded, or
  expired), the status read returns status "Pending" with no result, and this is the
  same response as the one for that id with a \<open>PENDING\<close> row; no NotFound answer exists.
\<close>

theorem unknown_id_reads_pending:
  "b tid = None \<Longrightarrow>
     get_task_status b tid = Inr \<lparr>task_id = tid, status = ''Pending'', result = None\<rparr> \<and>
     get_task_status (b(tid \<mapsto> Meta PENDING (Value PyNone))) tid = get_task_status b tid"
  by (simp add: get_task_status_def get_task_result_def get_task_meta_def)

theorem unknown_id_reads_pending_witness:
  "(Map.empty(''t1'' \<mapsto> Meta SUCCESS (Value (PyInt 3)))) ''t2'' = None \<and>
   get_task_status (Map.empty(''t1'' \<mapsto> Meta SUCCESS (Value (PyInt 3)))) ''t2''
     = Inr \<lparr>task_id = ''t2'', status = ''Pending'', result = None\<rparr>"
proof -
  have h: "(Map.empty(''t1'' \<mapsto> Meta SUCCESS (Value (PyInt 3)))) ''t2'' = None" by simp
  from unknown_id_reads_pending
         [of "Map.empty(''t1'' \<mapsto> Meta SUCCESS (Value (PyInt 3)))" "''t2''", OF h] h
  show ?thesis by blast
qed

text \<open>
  C9. Whatever the backend holds and whatever the task id, a response of the status
  endpoint carries the status string "Completed" or "Pending", and so never "Started",
  "Retrying" or "Failed".
\<close>

theorem get_task_status_two_values:
  "get_task_status b tid = Inr r \<Longrightarrow>
     (status r = ''Completed'' \<or> status r = ''Pending'') \<and>
     status r \<noteq> ''Started'' \<and> status r \<noteq> ''Retrying'' \<and> status r \<noteq> ''Failed''"
  by (auto simp: get_task_status_def Let_def split: if_splits sum.splits)

theorem get_task_status_two_values_witness:
  "get_task_status (Map.empty(''t1'' \<mapsto> Meta STARTED (Value PyNone))) ''t1''
     = Inr \<lparr>task_id = ''t1'', status = ''Pending'', result = None\<rparr> \<and>
   status \<lparr>task_id = ''t1'', status = ''Pending'', result = None\<rparr> \<noteq> ''Started''"
proof -
  have run: "get_task_status (Map.empty(''t1'' \<mapsto> Meta STARTED (Value PyNone))) ''t1''
     = Inr \<lparr>task_id = ''t1'', status = ''Pending'', result = None\<rparr>"
    by (simp add: get_task_status_def get_task_result_def get_task_meta_def)
  from get_task_status_two_values [OF run] run show ?thesis by simp
qed

section \<open>Retries of the divide task\<close>

text \<open>
  C2. \<open>divide(10, 0)\<close>, whose task declares \<open>max_retries=5\<close>, is retried exactly five times
  and then settles \<open>FAILURE\<close> with the \<open>ZeroDivisionError\<close>. The attempt running with
  \<open>request.retries = k\<close> asks for a retry with countdown \<open>2 ^ k\<close> while \<open>k < 5\<close> and raises
  at \<open>k = 5\<close>, so the countdowns are 1, 2, 4, 8, 16, strictly increasing.
\<close>

theorem divide_by_zero_five_retries:
  "(\<exists>cds. run_signature \<lparr>task = Task_divide_numbers, args = [PyInt 10, PyInt 0], queue = qn\<rparr>
            = Some (Meta FAILURE (Error (ZeroDivisionError ''Cannot divide by zero'')), cds) \<and>
          length cds = 5 \<and> cds = map (\<lambda>k. 2 ^ k) [0..<5] \<and> cds = [1, 2, 4, 8, 16] \<and>
          sorted_wrt (<) cds) \<and>
   (\<forall>k. divide_numbers_task k (PyInt 10) (PyInt 0)
          = (if k < 5 then Retried (ZeroDivisionError ''Cannot divide by zero'') (2 ^ k) else Raised (ZeroDivisionError ''Cannot divide by zero'')))"
  by (simp add: run_signature_def call_task_def run_task.simps divide_numbers_task_def retry_def
      divide_max_retries_def upt_rec)

section \<open>The chain workflow\<close>




section \<open>The chord workflow\<close>

text \<open>
  C4. For the chord with header \<open>{add(10, 5), divide(10, 2)}\<close> and callback aggregate:
  in whichever order the two members complete, the callback is submitted exactly once,
  its argument is the list \<open>[15, 5]\<close> in header order, and the chord's result is 20.
\<close>

theorem chord_callback_once_in_header_order:
  assumes d: "distinct order" and s: "set order = {0, 1}"
  shows "\<exists>st. run_chord (execute_parallel_workflow q 10 5 2) order = Some st \<and>
           callback_calls st = [[PyList [PyInt 15, PyFloat 5]]] \<and>
           length (callback_calls st) = 1 \<and>
           chord_error st = None \<and>
           chord_result (snd (execute_parallel_workflow q 10 5 2)) st
             = Some (Meta SUCCESS (Value (PyFloat 20)))"
proof -
  let ?rows = "[Meta SUCCESS (Value (PyInt 15)), Meta SUCCESS (Value (PyFloat 5))]"
  let ?cb = "snd (execute_parallel_workflow q 10 5 2)"
  have two: "{..<length ?rows} = {0, 1}" by auto
  from s two have s': "set order = {..<length ?rows}" by simp
  have b: "chord_barrier ?rows ?cb order
          = \<lparr>slots = map Some ?rows, readycount = length ?rows,
             callback_calls = [PyList [PyInt 15, PyFloat 5] # args ?cb], chord_error = None\<rparr>"
    using barrier_full [OF d s', of ?cb] by simp
  have cbargs: "args ?cb = []" by (simp add: execute_parallel_workflow_def Let_def)
  have run_cb: "run_signature (?cb\<lparr>args := [PyList [PyInt 15, PyFloat 5]]\<rparr>)
                  = Some (Meta SUCCESS (Value (PyFloat 20)), [])"
    by (simp add: execute_parallel_workflow_def Let_def run_signature_def call_task_def
        run_task.simps aggregate_results_task_def py_add_def)
  show ?thesis
    using header_rows_10_5_2 [of q] b cbargs run_cb
    by (simp add: run_chord_def chord_result_def)
qed

theorem chord_callback_once_in_header_order_witness:
  "distinct [1, 0 :: nat] \<and> set [1, 0 :: nat] = {0, 1} \<and>
   (\<exists>st. run_chord (execute_parallel_workflow (\<lparr>AVAILABLE_QUEUES = [''celery''], QUEUE_DESCRIPTIONS = [], TASK_ROUTES = [], DEFAULT_QUEUE = ''celery''\<rparr>) 10 5 2) [1, 0] = Some st \<and>
         callback_calls st = [[PyList [PyInt 15, PyFloat 5]]])"
proof -
  have d: "distinct [1, 0 :: nat]" by simp
  have s: "set [1, 0 :: nat] = {0, 1}" by auto
  from chord_callback_once_in_header_order [OF d s, of "\<lparr>AVAILABLE_QUEUES = [''celery''], QUEUE_DESCRIPTIONS = [], TASK_ROUTES = [], DEFAULT_QUEUE = ''celery''\<rparr>"] d s show ?thesis by blast
qed

text \<open>
  C5, as claimed: a header member that settles Failed does not abort the chord, the
  callback still runs with the member's error in its slot, and the callback accepts
  such input. The code does neither. With \<open>z = 0\<close> the divide member fails; once both
  parts are in, no callback is submitted and the chord's result is the \<open>ChordError\<close>.
  And \<open>sum\<close> over a list holding an error raises \<open>TypeError\<close>.
\<close>

theorem chord_failed_member_counterexample:
  "run_chord (execute_parallel_workflow (\<lparr>AVAILABLE_QUEUES = [''celery''], QUEUE_DESCRIPTIONS = [], TASK_ROUTES = [], DEFAULT_QUEUE = ''celery''\<rparr>) 10 5 0) [0, 1]
     = Some \<lparr>slots = [Some (Meta SUCCESS (Value (PyInt 15))), Some (Meta FAILURE (Error (ZeroDivisionError ''Cannot divide by zero'')))],
             readycount = 2, callback_calls = [],
             chord_error = Some (ChordError ''Dependency raised Cannot divide by zero'')\<rparr> \<and>
   aggregate_results_task (PyList [PyInt 15, PyExc (ZeroDivisionError ''Cannot divide by zero'')])
     = Raised (TypeError ''unsupported operand type(s) for +'')"
proof -
  have "chord_barrier [Meta SUCCESS (Value (PyInt 15)), Meta FAILURE (Error (ZeroDivisionError ''Cannot divide by zero''))]
          (snd (execute_parallel_workflow (\<lparr>AVAILABLE_QUEUES = [''celery''], QUEUE_DESCRIPTIONS = [], TASK_ROUTES = [], DEFAULT_QUEUE = ''celery''\<rparr>) 10 5 0)) [0, 1]
        = \<lparr>slots = [Some (Meta SUCCESS (Value (PyInt 15))), Some (Meta FAILURE (Error (ZeroDivisionError ''Cannot divide by zero'')))],
           readycount = 2, callback_calls = [],
           chord_error = Some (ChordError ''Dependency raised Cannot divide by zero'')\<rparr>"
    by (simp add: chord_barrier_def chord_init_def on_chord_part_return_def Let_def
        List.map_filter_simps numeral_2_eq_2)
  then show ?thesis
    using header_rows_10_5_0 [of "\<lparr>AVAILABLE_QUEUES = [''celery''], QUEUE_DESCRIPTIONS = [], TASK_ROUTES = [], DEFAULT_QUEUE = ''celery''\<rparr>"]
    by (simp add: run_chord_def aggregate_results_task_def py_add_def)
qed

text \<open>
  C5, amended: for every chord and every order in which the header members complete,
  a header member that settles Failed aborts the chord: after all members have
  reported, the callback has not been submitted, and the chord's result is \<open>FAILURE\<close>
  with a \<open>ChordError\<close>. The aggregate callback does not accept a mixed input: a list
  with an element that is not a number makes it raise \<open>TypeError\<close>.
\<close>

theorem chord_failed_member_aborts:
  assumes rs: "those (map run_signature header) = Some rs"
    and d: "distinct order" and s: "set order = {..<length header}"
    and i: "i < length header" and f: "fst (rs ! i) = Meta FAILURE (Error e)"
  shows "(\<exists>st msg. run_chord (header, cb) order = Some st \<and> callback_calls st = [] \<and>
            chord_error st = Some (ChordError msg) \<and>
            chord_result cb st = Some (Meta FAILURE (Error (ChordError msg)))) \<and>
         (\<forall>vs. (\<exists>v\<in>set vs. py_number v = None) \<longrightarrow>
            aggregate_results_task (PyList vs)
              = Raised (TypeError ''unsupported operand type(s) for +''))"
proof -
  let ?rows = "map fst rs"
  from those_length [OF rs] have len: "length ?rows = length header" by simp
  with i f have "Meta FAILURE (Error e) \<in> set ?rows"
    by (metis nth_map nth_mem length_map)
  from unpack_all_failed [OF this] obtain msg where
    u: "unpack_all ?rows = Inl (ChordError msg)" ..
  from i len have ne: "?rows \<noteq> []" by auto
  from s len have s': "set order = {..<length ?rows}" by simp
  have "chord_barrier ?rows cb order
          = \<lparr>slots = map Some ?rows, readycount = length ?rows,
             callback_calls = [], chord_error = Some (ChordError msg)\<rparr>"
    using barrier_full [OF d s' ne, of cb] u by simp
  then have abort: "\<exists>st msg. run_chord (header, cb) order = Some st \<and> callback_calls st = [] \<and>
            chord_error st = Some (ChordError msg) \<and>
            chord_result cb st = Some (Meta FAILURE (Error (ChordError msg)))"
    using rs by (simp add: run_chord_def chord_result_def)
  have agg: "\<forall>vs. (\<exists>v\<in>set vs. py_number v = None) \<longrightarrow>
            aggregate_results_task (PyList vs)
              = Raised (TypeError ''unsupported operand type(s) for +'')"
    using py_sum_non_number [of "PyInt 0"] by (simp add: aggregate_results_task_def)
  from abort agg show ?thesis by blast
qed

theorem chord_failed_member_aborts_witness:
  "those (map run_signature (fst (execute_parallel_workflow (\<lparr>AVAILABLE_QUEUES = [''celery''], QUEUE_DESCRIPTIONS = [], TASK_ROUTES = [], DEFAULT_QUEUE = ''celery''\<rparr>) 10 5 0)))
     = Some [(Meta SUCCESS (Value (PyInt 15)), []),
             (Meta FAILURE (Error (ZeroDivisionError ''Cannot divide by zero'')), [1, 2, 4, 8, 16])] \<and>
   distinct [1, 0 :: nat] \<and>
   set [1, 0 :: nat] = {..<length (fst (execute_parallel_workflow (\<lparr>AVAILABLE_QUEUES = [''celery''], QUEUE_DESCRIPTIONS = [], TASK_ROUTES = [], DEFAULT_QUEUE = ''celery''\<rparr>) 10 5 0))} \<and>
   (\<exists>st msg. run_chord (execute_parallel_workflow (\<lparr>AVAILABLE_QUEUES = [''celery''], QUEUE_DESCRIPTIONS = [], TASK_ROUTES = [], DEFAULT_QUEUE = ''celery''\<rparr>) 10 5 0) [1, 0] = Some st \<and>
      callback_calls st = [] \<and> chord_error st = Some (ChordError msg)) \<and>
   (\<exists>v\<in>set [PyInt 15, PyExc (ZeroDivisionError ''Cannot divide by zero'')]. py_number v = None) \<and>
   aggregate_results_task (PyList [PyInt 15, PyExc (ZeroDivisionError ''Cannot divide by zero'')])
     = Raised (TypeError ''unsupported operand type(s) for +'')"
proof -
  let ?c = "execute_parallel_workflow (\<lparr>AVAILABLE_QUEUES = [''celery''], QUEUE_DESCRIPTIONS = [], TASK_ROUTES = [], DEFAULT_QUEUE = ''celery''\<rparr>) 10 5 0"
  have rs: "those (map run_signature (fst ?c))
     = Some [(Meta SUCCESS (Value (PyInt 15)), []),
             (Meta FAILURE (Error (ZeroDivisionError ''Cannot divide by zero'')), [1, 2, 4, 8, 16])]"
    by (rule header_rows_10_5_0)
  have d: "distinct [1, 0 :: nat]" by simp
  have s: "set [1, 0 :: nat] = {..<length (fst ?c)}"
    by (auto simp: execute_parallel_workflow_def Let_def)
  have i: "(1::nat) < length (fst ?c)"
    by (simp add: execute_parallel_workflow_def Let_def)
  have f: "fst ([(Meta SUCCESS (Value (PyInt 15)), []),
                 (Meta FAILURE (Error (ZeroDivisionError ''Cannot divide by zero'')), [1, 2, 4, 8, 16 :: nat])] ! 1)
             = Meta FAILURE (Error (ZeroDivisionError ''Cannot divide by zero''))"
    by simp
  have nn: "\<exists>v\<in>set [PyInt 15, PyExc (ZeroDivisionError ''Cannot divide by zero'')]. py_number v = None" by simp
  from chord_failed_member_aborts [OF rs d s i f, of "snd ?c"] rs d s nn
  show ?thesis by simp blast
qed

section \<open>Waiting for results\<close>

text \<open>
  C7, as claimed: every synchronous wait of a producer stops after a caller-supplied
  number of attempts. The waits of \<open>run_rag_pipeline\<close> do not: \<open>pdf_task.get()\<close> takes no
  bound, and when the task is never ready the endpoint never returns.
\<close>

theorem run_rag_pipeline_waits_forever_counterexample:
  "run_rag_pipeline (''pdf-id'', ''split-id'', ''store-id'') (\<lparr>pdf_path = ''a.pdf'', chunk_size = 1000, chunk_overlap = 200, persist_directory = ''store''\<rparr>) never_ready never_ready = None"
proof -
  have "wait_for never_ready 0 = None"
    by (rule wait_never) (simp add: never_ready_def)
  then show ?thesis
    by (simp add: run_rag_pipeline_def pipeline_step_def AsyncResult_get_def)
qed

text \<open>
  C7, amended: the polling wait of the client script, \<open>check_task_status\<close>, makes at most
  \<open>max_attempts\<close> polls (none when \<open>max_attempts\<close> is not positive) and sleeps once after
  each poll that does not end the loop. When no reply among the first \<open>max_attempts\<close> ends
  the loop it polls and sleeps \<open>max_attempts\<close> times and returns \<open>None\<close>; when attempt \<open>j\<close>
  is the first whose reply ends the loop (a "Completed" status or a \<open>RequestException\<close>) it
  has polled \<open>j\<close> times, slept \<open>j - 1\<close> times, and returns that reply's data. The
  synchronous waits of the API (\<open>AsyncResult.get()\<close> in \<open>run_rag_pipeline\<close>) take no
  attempt bound: they return once a read finds the task ready, and never return when no
  read does.
\<close>

theorem waits_bounded_in_client_only:
  "polls (check_task_status http max_attempts) \<le> nat max_attempts \<and>
   sleeps (check_task_status http max_attempts) \<le> polls (check_task_status http max_attempts) \<and>
   ((\<forall>i. 1 \<le> i \<and> i \<le> nat max_attempts \<longrightarrow> \<not> ends_loop (http i)) \<longrightarrow>
      check_task_status http max_attempts
        = \<lparr>returned = None, polls = nat max_attempts, sleeps = nat max_attempts\<rparr>) \<and>
   (\<forall>j. 1 \<le> j \<and> j \<le> nat max_attempts \<and> ends_loop (http j) \<and>
        (\<forall>i. 1 \<le> i \<and> i < j \<longrightarrow> \<not> ends_loop (http i)) \<longrightarrow>
      check_task_status http max_attempts
        = \<lparr>returned = reply_data (http j), polls = j, sleeps = j - 1\<rparr>) \<and>
   ((\<forall>n. \<not> ready (poll n)) \<longrightarrow>
       AsyncResult_get poll = None \<and> run_rag_pipeline ids request poll poll' = None) \<and>
   (ready (poll k) \<longrightarrow> AsyncResult_get poll \<noteq> None)"
proof -
  have a: "(\<forall>n. \<not> ready (poll n)) \<longrightarrow>
       AsyncResult_get poll = None \<and> run_rag_pipeline ids request poll poll' = None"
  proof
    assume "\<forall>n. \<not> ready (poll n)"
    then have "wait_for poll 0 = None" by (intro wait_never) simp
    then show "AsyncResult_get poll = None \<and> run_rag_pipeline ids request poll poll' = None"
      by (simp add: run_rag_pipeline_def pipeline_step_def AsyncResult_get_def)
  qed
  have b: "ready (poll k) \<longrightarrow> AsyncResult_get poll \<noteq> None"
  proof
    assume "ready (poll k)"
    then have "ready (poll (0 + k))" by simp
    from wait_ready [of poll 0 k, OF this] show "AsyncResult_get poll \<noteq> None"
      by (auto simp: AsyncResult_get_def)
  qed
  have c: "(\<forall>i. 1 \<le> i \<and> i \<le> nat max_attempts \<longrightarrow> \<not> ends_loop (http i)) \<longrightarrow>
      check_task_status http max_attempts
        = \<lparr>returned = None, polls = nat max_attempts, sleeps = nat max_attempts\<rparr>"
  proof
    assume h: "\<forall>i. 1 \<le> i \<and> i \<le> nat max_attempts \<longrightarrow> \<not> ends_loop (http i)"
    show "check_task_status http max_attempts
        = \<lparr>returned = None, polls = nat max_attempts, sleeps = nat max_attempts\<rparr>"
      unfolding check_task_status_def
      using h by (intro check_attempts_exhausted) simp
  qed
  have d: "\<forall>j. 1 \<le> j \<and> j \<le> nat max_attempts \<and> ends_loop (http j) \<and>
        (\<forall>i. 1 \<le> i \<and> i < j \<longrightarrow> \<not> ends_loop (http i)) \<longrightarrow>
      check_task_status http max_attempts
        = \<lparr>returned = reply_data (http j), polls = j, sleeps = j - 1\<rparr>"
  proof (intro allI impI, elim conjE)
    fix j
    assume j1: "1 \<le> j" and jm: "j \<le> nat max_attempts" and e: "ends_loop (http j)"
      and h: "\<forall>i. 1 \<le> i \<and> i < j \<longrightarrow> \<not> ends_loop (http i)"
    from j1 obtain j' where j: "j = Suc j'" by (cases j) auto
    have "check_attempts http 1 (nat max_attempts)
            = \<lparr>returned = reply_data (http (1 + j')), polls = Suc j', sleeps = j'\<rparr>"
      using jm e h unfolding j by (intro check_attempts_ended) simp_all
    then show "check_task_status http max_attempts
        = \<lparr>returned = reply_data (http j), polls = j, sleeps = j - 1\<rparr>"
      by (simp add: check_task_status_def j)
  qed
  from check_attempts_bounded [of http 1 "nat max_attempts"] a b c d show ?thesis
    by (simp add: check_task_status_def)
qed

theorem waits_bounded_in_client_only_witness:
  "(\<forall>i. \<not> ends_loop (polled_status never_ready ''t1'' i)) \<and>
   check_task_status (polled_status never_ready ''t1'') 10
     = \<lparr>returned = None, polls = 10, sleeps = 10\<rparr> \<and>
   (1::nat) \<le> 3 \<and> (3::nat) \<le> nat 10 \<and>
   ends_loop (polled_status (settled_at 3 (Meta SUCCESS (Value (PyInt 7)))) ''t1'' 3) \<and>
   \<not> ends_loop (polled_status (settled_at 3 (Meta SUCCESS (Value (PyInt 7)))) ''t1'' 1) \<and>
   \<not> ends_loop (polled_status (settled_at 3 (Meta SUCCESS (Value (PyInt 7)))) ''t1'' 2) \<and>
   check_task_status (polled_status (settled_at 3 (Meta SUCCESS (Value (PyInt 7)))) ''t1'') 10
     = \<lparr>returned = Some [(''task_id'', PyStr ''t1''), (''status'', PyStr ''Completed''),
                         (''result'', PyInt 7)],
        polls = 3, sleeps = 2\<rparr> \<and>
   (\<forall>n. \<not> ready (never_ready n)) \<and> AsyncResult_get never_ready = None \<and>
   ready (settled_at 3 (Meta SUCCESS (Value (PyInt 7))) 3) \<and>
   AsyncResult_get (settled_at 3 (Meta SUCCESS (Value (PyInt 7)))) \<noteq> None"
proof -
  let ?done = "polled_status (settled_at 3 (Meta SUCCESS (Value (PyInt 7)))) ''t1''"
  have n: "\<forall>n. \<not> ready (never_ready n)" by (simp add: never_ready_def)
  have r: "ready (settled_at 3 (Meta SUCCESS (Value (PyInt 7))) 3)"
    by (simp add: settled_at_def)
  have g: "\<forall>i. \<not> ends_loop (polled_status never_ready ''t1'' i)"
    using n by (simp add: polled_pending)
  then have h0: "\<forall>i. 1 \<le> i \<and> i \<le> nat 10 \<longrightarrow> \<not> ends_loop (polled_status never_ready ''t1'' i)"
    by simp
  have h1: "(1::nat) \<le> 3 \<and> (3::nat) \<le> nat 10" by simp
  have h2: "ends_loop (?done 3)"
    by (simp add: polled_status_def status_reply_def get_task_status_def get_task_result_def
        get_task_meta_def ends_loop_def settled_at_def)
  have e1: "\<not> ends_loop (?done 1)" and e2: "\<not> ends_loop (?done 2)"
    by (simp_all add: polled_pending settled_at_def)
  have h3: "\<forall>i. 1 \<le> i \<and> i < 3 \<longrightarrow> \<not> ends_loop (?done i)"
    by (simp add: polled_pending settled_at_def)
  have data: "reply_data (?done 3)
                = Some [(''task_id'', PyStr ''t1''), (''status'', PyStr ''Completed''),
                        (''result'', PyInt 7)]"
    by (simp add: polled_status_def status_reply_def get_task_status_def get_task_result_def
        get_task_meta_def reply_data_def settled_at_def)
  from waits_bounded_in_client_only [of "polled_status never_ready ''t1''" 10] h0
  have c0: "check_task_status (polled_status never_ready ''t1'') 10
              = \<lparr>returned = None, polls = nat 10, sleeps = nat 10\<rparr>"
    by blast
  from waits_bounded_in_client_only [of ?done 10] h1 h2 h3
  have c1: "check_task_status ?done 10
              = \<lparr>returned = reply_data (?done 3), polls = 3, sleeps = 3 - 1\<rparr>"
    by blast
  from waits_bounded_in_client_only [of _ _ never_ready] n
  have g0: "AsyncResult_get never_ready = None" by blast
  from waits_bounded_in_client_only
      [of _ _ "settled_at 3 (Meta SUCCESS (Value (PyInt 7)))" _ _ _ 3] r
  have g1: "AsyncResult_get (settled_at 3 (Meta SUCCESS (Value (PyInt 7)))) \<noteq> None" by blast
  from g c0 h1 h2 e1 e2 c1 data n g0 r g1 show ?thesis by simp
qed

section \<open>The routes listing\<close>

text \<open>
  C8. The listing of \<open>get_task_info\<close> has an entry for every item of the route table,
  whatever the table. With the route table of the spec, which has an item for every
  registered task name, the listing maps every registered task name to its queue, the
  queue that \<open>get_queue_for_task\<close> resolves for it, and every other task name resolves to
  the configured default queue. For any table, a task name that is not a key of it
  resolves to the default queue.
\<close>

theorem routes_listing_and_default_queue:
  "(\<forall>name qn. (name, qn) \<in> set (TASK_ROUTES q) \<longrightarrow>
       (name, qn) \<in> set (info_tasks (get_task_info q))) \<and>
   (\<forall>name \<in> set registered_task_names.
       (name, queue_of name)
         \<in> set (info_tasks (get_task_info (q\<lparr>TASK_ROUTES := route_table queue_of\<rparr>))) \<and>
       get_queue_for_task (q\<lparr>TASK_ROUTES := route_table queue_of\<rparr>) name = queue_of name) \<and>
   (\<forall>name. name \<notin> set registered_task_names \<longrightarrow>
       get_queue_for_task (q\<lparr>TASK_ROUTES := route_table queue_of\<rparr>) name = DEFAULT_QUEUE q) \<and>
   (\<forall>name. name \<notin> fst ` set (TASK_ROUTES q) \<longrightarrow> get_queue_for_task q name = DEFAULT_QUEUE q)"
proof -
  have tasks: "\<And>q. info_tasks (get_task_info q) = TASK_ROUTES q"
    by (simp add: get_task_info_def case_prod_unfold)
  have absent: "\<And>name. name \<notin> fst ` set (TASK_ROUTES q) \<Longrightarrow>
      get_queue_for_task q name = DEFAULT_QUEUE q"
    by (simp add: get_queue_for_task_def map_of_eq_None_iff [THEN iffD2])
  have res: "\<And>name. get_queue_for_task (q\<lparr>TASK_ROUTES := route_table queue_of\<rparr>) name
      = (if name \<in> set registered_task_names then queue_of name else DEFAULT_QUEUE q)"
    by (simp add: get_queue_for_task_def route_table_def map_of_keyed)
  have listed: "\<And>name. name \<in> set registered_task_names \<Longrightarrow>
      (name, queue_of name) \<in> set (route_table queue_of)"
    by (auto simp: route_table_def)
  show ?thesis using tasks absent res listed by simp
qed

theorem routes_listing_and_default_queue_witness:
  "''tasks.aggregate_results'' \<in> set registered_task_names \<and>
   (''tasks.aggregate_results'', ''celery'')
     \<in> set (info_tasks (get_task_info
          (\<lparr>AVAILABLE_QUEUES = [''celery''], QUEUE_DESCRIPTIONS = [], TASK_ROUTES = [],
            DEFAULT_QUEUE = ''fallback''\<rparr>\<lparr>TASK_ROUTES := route_table (\<lambda>name. ''celery'')\<rparr>))) \<and>
   ''tasks.unknown'' \<notin> set registered_task_names \<and>
   get_queue_for_task
     (\<lparr>AVAILABLE_QUEUES = [''celery''], QUEUE_DESCRIPTIONS = [], TASK_ROUTES = [],
       DEFAULT_QUEUE = ''fallback''\<rparr>\<lparr>TASK_ROUTES := route_table (\<lambda>name. ''celery'')\<rparr>)
     ''tasks.unknown'' = ''fallback''"
proof -
  let ?q = "\<lparr>AVAILABLE_QUEUES = [''celery''], QUEUE_DESCRIPTIONS = [], TASK_ROUTES = [],
            DEFAULT_QUEUE = ''fallback''\<rparr>"
  have reg: "''tasks.aggregate_results'' \<in> set registered_task_names"
    by (simp add: registered_task_names_def)
  have un: "''tasks.unknown'' \<notin> set registered_task_names"
    by (simp add: registered_task_names_def)
  note inst = routes_listing_and_default_queue [of ?q "\<lambda>name. ''celery''"]
  from inst reg
  have l: "(''tasks.aggregate_results'', ''celery'')
     \<in> set (info_tasks (get_task_info (?q\<lparr>TASK_ROUTES := route_table (\<lambda>name. ''celery'')\<rparr>)))"
    by blast
  from inst un
  have d: "get_queue_for_task (?q\<lparr>TASK_ROUTES := route_table (\<lambda>name. ''celery'')\<rparr>)
             ''tasks.unknown'' = DEFAULT_QUEUE ?q"
    by blast
  from reg un l d show ?thesis by simp
qed

section \<open>The RAG task handlers\<close>

text \<open>
  C10. Whatever the libraries do (return or raise an \<open>Exception\<close>) and whatever the
  arguments, each of \<open>load_pdf_task\<close>, \<open>split_documents_task\<close>, \<open>create_vectorstore_task\<close> and
  \<open>query_vectorstore_task\<close> returns a dictionary whose \<open>"status"\<close> is \<open>"success"\<close> or
  \<open>"error"\<close>. When the service raises, the status is \<open>"error"\<close> and the \<open>"message"\<close> entry
  carries the text of the exception; when the service returns, the status is
  \<open>"success"\<close> and the dictionary carries the service's data. The worker settles the
  task \<open>SUCCESS\<close> at the first attempt with that dictionary as the stored value, with no
  retry and never \<open>FAILURE\<close>.
\<close>

theorem rag_handlers_never_raise:
  "status_field (load_pdf_task L path) \<in> {Some (PyStr ''success''), Some (PyStr ''error'')} \<and>
   (\<exists>v. run_task (\<lambda>r. load_pdf_task L path) 0 = Some (Meta SUCCESS (Value v), [])) \<and>
   status_field (split_documents_task L S documents csize coverlap)
     \<in> {Some (PyStr ''success''), Some (PyStr ''error'')} \<and>
   (\<exists>v. run_task (\<lambda>r. split_documents_task L S documents csize coverlap) 0
          = Some (Meta SUCCESS (Value v), [])) \<and>
   status_field (create_vectorstore_task L chunks dir)
     \<in> {Some (PyStr ''success''), Some (PyStr ''error'')} \<and>
   (\<exists>v. run_task (\<lambda>r. create_vectorstore_task L chunks dir) 0
          = Some (Meta SUCCESS (Value v), [])) \<and>
   status_field (query_vectorstore_task L S question dir top_k)
     \<in> {Some (PyStr ''success''), Some (PyStr ''error'')} \<and>
   (\<exists>v. run_task (\<lambda>r. query_vectorstore_task L S question dir top_k) 0
          = Some (Meta SUCCESS (Value v), [])) \<and>
   (\<forall>e. load_pdf L path = Inl e \<longrightarrow>
      status_field (load_pdf_task L path) = Some (PyStr ''error'') \<and>
      returned_field (load_pdf_task L path) ''message''
        = Some (PyStr (''Error loading PDF: '' @ str_exc e))) \<and>
   (\<forall>docs. load_pdf L path = Inr docs \<longrightarrow>
      status_field (load_pdf_task L path) = Some (PyStr ''success'') \<and>
      returned_field (load_pdf_task L path) ''documents'' = Some (PyList docs) \<and>
      returned_field (load_pdf_task L path) ''doc_count'' = Some (PyInt (int (length docs)))) \<and>
   (\<forall>e. split_documents L S documents csize coverlap = Inl e \<longrightarrow>
      status_field (split_documents_task L S documents csize coverlap) = Some (PyStr ''error'') \<and>
      returned_field (split_documents_task L S documents csize coverlap) ''message''
        = Some (PyStr (''Error splitting documents: '' @ str_exc e))) \<and>
   (\<forall>cs. split_documents L S documents csize coverlap = Inr cs \<longrightarrow>
      status_field (split_documents_task L S documents csize coverlap) = Some (PyStr ''success'') \<and>
      returned_field (split_documents_task L S documents csize coverlap) ''chunks''
        = Some (PyList cs) \<and>
      returned_field (split_documents_task L S documents csize coverlap) ''chunk_count''
        = Some (PyInt (int (length cs)))) \<and>
   (\<forall>e. create_vectorstore L chunks dir = Inl e \<longrightarrow>
      status_field (create_vectorstore_task L chunks dir) = Some (PyStr ''error'') \<and>
      returned_field (create_vectorstore_task L chunks dir) ''message''
        = Some (PyStr (''Error creating vectorstore: '' @ str_exc e))) \<and>
   (\<forall>res. create_vectorstore L chunks dir = Inr res \<longrightarrow>
      status_field (create_vectorstore_task L chunks dir) = Some (PyStr ''success'') \<and>
      returned_field (create_vectorstore_task L chunks dir) ''vectorstore_path''
        = Some (PyStr dir) \<and>
      returned_field (create_vectorstore_task L chunks dir) ''chunk_count''
        = Some (PyInt (int (length chunks))) \<and>
      returned_field (create_vectorstore_task L chunks dir) ''collection_id''
        = map_of res ''collection_id'') \<and>
   (\<forall>e. query L S question dir top_k = Inl e \<longrightarrow>
      status_field (query_vectorstore_task L S question dir top_k) = Some (PyStr ''error'') \<and>
      returned_field (query_vectorstore_task L S question dir top_k) ''message''
        = Some (PyStr (''Error querying vectorstore: '' @ str_exc e))) \<and>
   (\<forall>res. query L S question dir top_k = Inr res \<longrightarrow>
      status_field (query_vectorstore_task L S question dir top_k) = Some (PyStr ''success'') \<and>
      returned_field (query_vectorstore_task L S question dir top_k) ''question''
        = Some (PyStr question) \<and>
      returned_field (query_vectorstore_task L S question dir top_k) ''answer''
        = map_of res ''answer'') \<and>
   (\<exists>d. load_pdf_task L path = Returned (PyDict d) \<and>
        run_task (\<lambda>r. load_pdf_task L path) 0 = Some (Meta SUCCESS (Value (PyDict d)), [])) \<and>
   (\<exists>d. split_documents_task L S documents csize coverlap = Returned (PyDict d) \<and>
        run_task (\<lambda>r. split_documents_task L S documents csize coverlap) 0
          = Some (Meta SUCCESS (Value (PyDict d)), [])) \<and>
   (\<exists>d. create_vectorstore_task L chunks dir = Returned (PyDict d) \<and>
        run_task (\<lambda>r. create_vectorstore_task L chunks dir) 0
          = Some (Meta SUCCESS (Value (PyDict d)), [])) \<and>
   (\<exists>d. query_vectorstore_task L S question dir top_k = Returned (PyDict d) \<and>
        run_task (\<lambda>r. query_vectorstore_task L S question dir top_k) 0
          = Some (Meta SUCCESS (Value (PyDict d)), []))"
proof -
  have l1: "status_field (load_pdf_task L path)
              \<in> {Some (PyStr ''success''), Some (PyStr ''error'')}"
    by (simp add: load_pdf_task_def split: sum.splits)
  have l2: "\<exists>d. load_pdf_task L path = Returned (PyDict d)"
    by (simp add: load_pdf_task_def split: sum.splits)
  have s1: "status_field (split_documents_task L S documents csize coverlap)
              \<in> {Some (PyStr ''success''), Some (PyStr ''error'')}"
    by (simp add: split_documents_task_def split: sum.splits)
  have s2: "\<exists>d. split_documents_task L S documents csize coverlap = Returned (PyDict d)"
    by (simp add: split_documents_task_def split: sum.splits)
  have c1: "status_field (create_vectorstore_task L chunks dir)
              \<in> {Some (PyStr ''success''), Some (PyStr ''error'')}"
    by (auto simp: create_vectorstore_task_def create_vectorstore_def dict_unpack_def
        split: sum.splits)
  have c2: "\<exists>d. create_vectorstore_task L chunks dir = Returned (PyDict d)"
    by (simp add: create_vectorstore_task_def split: sum.splits)
  have q1: "status_field (query_vectorstore_task L S question dir top_k)
              \<in> {Some (PyStr ''success''), Some (PyStr ''error'')}"
    by (auto simp: query_vectorstore_task_def query_def dict_unpack_def Let_def
        split: sum.splits if_splits)
  have q2: "\<exists>d. query_vectorstore_task L S question dir top_k = Returned (PyDict d)"
    by (simp add: query_vectorstore_task_def split: sum.splits)
  from l2 have l3: "\<exists>d. load_pdf_task L path = Returned (PyDict d) \<and>
        run_task (\<lambda>r. load_pdf_task L path) 0 = Some (Meta SUCCESS (Value (PyDict d)), [])"
    by (auto intro: settle_returned)
  from s2 have s3: "\<exists>d. split_documents_task L S documents csize coverlap = Returned (PyDict d) \<and>
        run_task (\<lambda>r. split_documents_task L S documents csize coverlap) 0
          = Some (Meta SUCCESS (Value (PyDict d)), [])"
    by (auto intro: settle_returned)
  from c2 have c3: "\<exists>d. create_vectorstore_task L chunks dir = Returned (PyDict d) \<and>
        run_task (\<lambda>r. create_vectorstore_task L chunks dir) 0
          = Some (Meta SUCCESS (Value (PyDict d)), [])"
    by (auto intro: settle_returned)
  from q2 have q3: "\<exists>d. query_vectorstore_task L S question dir top_k = Returned (PyDict d) \<and>
        run_task (\<lambda>r. query_vectorstore_task L S question dir top_k) 0
          = Some (Meta SUCCESS (Value (PyDict d)), [])"
    by (auto intro: settle_returned)
  have le: "\<forall>e. load_pdf L path = Inl e \<longrightarrow>
      status_field (load_pdf_task L path) = Some (PyStr ''error'') \<and>
      returned_field (load_pdf_task L path) ''message''
        = Some (PyStr (''Error loading PDF: '' @ str_exc e))"
    by (simp add: load_pdf_task_def)
  have ls: "\<forall>docs. load_pdf L path = Inr docs \<longrightarrow>
      status_field (load_pdf_task L path) = Some (PyStr ''success'') \<and>
      returned_field (load_pdf_task L path) ''documents'' = Some (PyList docs) \<and>
      returned_field (load_pdf_task L path) ''doc_count'' = Some (PyInt (int (length docs)))"
    by (simp add: load_pdf_task_def)
  have se: "\<forall>e. split_documents L S documents csize coverlap = Inl e \<longrightarrow>
      status_field (split_documents_task L S documents csize coverlap) = Some (PyStr ''error'') \<and>
      returned_field (split_documents_task L S documents csize coverlap) ''message''
        = Some (PyStr (''Error splitting documents: '' @ str_exc e))"
    by (simp add: split_documents_task_def)
  have ss: "\<forall>cs. split_documents L S documents csize coverlap = Inr cs \<longrightarrow>
      status_field (split_documents_task L S documents csize coverlap) = Some (PyStr ''success'') \<and>
      returned_field (split_documents_task L S documents csize coverlap) ''chunks''
        = Some (PyList cs) \<and>
      returned_field (split_documents_task L S documents csize coverlap) ''chunk_count''
        = Some (PyInt (int (length cs)))"
    by (simp add: split_documents_task_def)
  have ce: "\<forall>e. create_vectorstore L chunks dir = Inl e \<longrightarrow>
      status_field (create_vectorstore_task L chunks dir) = Some (PyStr ''error'') \<and>
      returned_field (create_vectorstore_task L chunks dir) ''message''
        = Some (PyStr (''Error creating vectorstore: '' @ str_exc e))"
    by (simp add: create_vectorstore_task_def)
  have cs: "\<forall>res. create_vectorstore L chunks dir = Inr res \<longrightarrow>
      status_field (create_vectorstore_task L chunks dir) = Some (PyStr ''success'') \<and>
      returned_field (create_vectorstore_task L chunks dir) ''vectorstore_path''
        = Some (PyStr dir) \<and>
      returned_field (create_vectorstore_task L chunks dir) ''chunk_count''
        = Some (PyInt (int (length chunks))) \<and>
      returned_field (create_vectorstore_task L chunks dir) ''collection_id''
        = map_of res ''collection_id''"
    by (auto simp: create_vectorstore_task_def create_vectorstore_def dict_unpack_def
        split: sum.splits)
  have qe: "\<forall>e. query L S question dir top_k = Inl e \<longrightarrow>
      status_field (query_vectorstore_task L S question dir top_k) = Some (PyStr ''error'') \<and>
      returned_field (query_vectorstore_task L S question dir top_k) ''message''
        = Some (PyStr (''Error querying vectorstore: '' @ str_exc e))"
    by (simp add: query_vectorstore_task_def)
  have qs: "\<forall>res. query L S question dir top_k = Inr res \<longrightarrow>
      status_field (query_vectorstore_task L S question dir top_k) = Some (PyStr ''success'') \<and>
      returned_field (query_vectorstore_task L S question dir top_k) ''question''
        = Some (PyStr question) \<and>
      returned_field (query_vectorstore_task L S question dir top_k) ''answer''
        = map_of res ''answer''"
    by (auto simp: query_vectorstore_task_def query_def dict_unpack_def Let_def
        split: sum.splits if_splits)
  from l3 have l4: "\<exists>v. run_task (\<lambda>r. load_pdf_task L path) 0
                         = Some (Meta SUCCESS (Value v), [])" by blast
  from s3 have s4: "\<exists>v. run_task (\<lambda>r. split_documents_task L S documents csize coverlap) 0
                         = Some (Meta SUCCESS (Value v), [])" by blast
  from c3 have c4: "\<exists>v. run_task (\<lambda>r. create_vectorstore_task L chunks dir) 0
                         = Some (Meta SUCCESS (Value v), [])" by blast
  from q3 have q4: "\<exists>v. run_task (\<lambda>r. query_vectorstore_task L S question dir top_k) 0
                         = Some (Meta SUCCESS (Value v), [])" by blast
  show ?thesis
    by (intro conjI l1 l4 s1 s4 c1 c4 q1 q4 le ls se ss ce cs qe qs l3 s3 c3 q3)
qed

theorem rag_handlers_never_raise_witness:
  "load_pdf (\<lparr>pdf_loader = (\<lambda>path. Inl (LibraryError ''file not found'')),
      text_splitter = (\<lambda>csize coverlap docs. Inr docs),
      from_documents = (\<lambda>docs dir. Inl (LibraryError ''no API key'')),
      collection_count = (\<lambda>dir. Inr 0),
      retriever = (\<lambda>dir k question. Inr []),
      rag_chain = (\<lambda>dir k question. Inr ''unused'')\<rparr>) ''a.pdf'' = Inl (LibraryError ''file not found'') \<and>
   status_field (load_pdf_task (\<lparr>pdf_loader = (\<lambda>path. Inl (LibraryError ''file not found'')),
      text_splitter = (\<lambda>csize coverlap docs. Inr docs),
      from_documents = (\<lambda>docs dir. Inl (LibraryError ''no API key'')),
      collection_count = (\<lambda>dir. Inr 0),
      retriever = (\<lambda>dir k question. Inr []),
      rag_chain = (\<lambda>dir k question. Inr ''unused'')\<rparr>) ''a.pdf'') = Some (PyStr ''error'') \<and>
   returned_field (load_pdf_task (\<lparr>pdf_loader = (\<lambda>path. Inl (LibraryError ''file not found'')),
      text_splitter = (\<lambda>csize coverlap docs. Inr docs),
      from_documents = (\<lambda>docs dir. Inl (LibraryError ''no API key'')),
      collection_count = (\<lambda>dir. Inr 0),
      retriever = (\<lambda>dir k question. Inr []),
      rag_chain = (\<lambda>dir k question. Inr ''unused'')\<rparr>) ''a.pdf'') ''message''
     = Some (PyStr ''Error loading PDF: file not found'') \<and>
   split_documents (\<lparr>pdf_loader = (\<lambda>path. Inl (LibraryError ''file not found'')),
      text_splitter = (\<lambda>csize coverlap docs. Inr docs),
      from_documents = (\<lambda>docs dir. Inl (LibraryError ''no API key'')),
      collection_count = (\<lambda>dir. Inr 0),
      retriever = (\<lambda>dir k question. Inr []),
      rag_chain = (\<lambda>dir k question. Inr ''unused'')\<rparr>) (\<lparr>settings_chunk_size = 1000, settings_chunk_overlap = 200, retrieval_top_k = 3\<rparr>) [PyNone] None None
     = Inl (TypeError ''object is not subscriptable with a string'') \<and>
   returned_field (split_documents_task (\<lparr>pdf_loader = (\<lambda>path. Inl (LibraryError ''file not found'')),
      text_splitter = (\<lambda>csize coverlap docs. Inr docs),
      from_documents = (\<lambda>docs dir. Inl (LibraryError ''no API key'')),
      collection_count = (\<lambda>dir. Inr 0),
      retriever = (\<lambda>dir k question. Inr []),
      rag_chain = (\<lambda>dir k question. Inr ''unused'')\<rparr>) (\<lparr>settings_chunk_size = 1000, settings_chunk_overlap = 200, retrieval_top_k = 3\<rparr>) [PyNone] None None) ''message''
     = Some (PyStr ''Error splitting documents: object is not subscriptable with a string'') \<and>
   create_vectorstore (\<lparr>pdf_loader = (\<lambda>path. Inl (LibraryError ''file not found'')),
      text_splitter = (\<lambda>csize coverlap docs. Inr docs),
      from_documents = (\<lambda>docs dir. Inl (LibraryError ''no API key'')),
      collection_count = (\<lambda>dir. Inr 0),
      retriever = (\<lambda>dir k question. Inr []),
      rag_chain = (\<lambda>dir k question. Inr ''unused'')\<rparr>) [] ''store'' = Inl (LibraryError ''no API key'') \<and>
   status_field (create_vectorstore_task (\<lparr>pdf_loader = (\<lambda>path. Inl (LibraryError ''file not found'')),
      text_splitter = (\<lambda>csize coverlap docs. Inr docs),
      from_documents = (\<lambda>docs dir. Inl (LibraryError ''no API key'')),
      collection_count = (\<lambda>dir. Inr 0),
      retriever = (\<lambda>dir k question. Inr []),
      rag_chain = (\<lambda>dir k question. Inr ''unused'')\<rparr>) [] ''store'') = Some (PyStr ''error'') \<and>
   query (\<lparr>pdf_loader = (\<lambda>path. Inl (LibraryError ''file not found'')),
      text_splitter = (\<lambda>csize coverlap docs. Inr docs),
      from_documents = (\<lambda>docs dir. Inl (LibraryError ''no API key'')),
      collection_count = (\<lambda>dir. Inr 0),
      retriever = (\<lambda>dir k question. Inr []),
      rag_chain = (\<lambda>dir k question. Inr ''unused'')\<rparr>) (\<lparr>settings_chunk_size = 1000, settings_chunk_overlap = 200, retrieval_top_k = 3\<rparr>) ''why?'' ''store'' None = Inl (ValueError ''Vectorstore at store is empty'') \<and>
   returned_field (query_vectorstore_task (\<lparr>pdf_loader = (\<lambda>path. Inl (LibraryError ''file not found'')),
      text_splitter = (\<lambda>csize coverlap docs. Inr docs),
      from_documents = (\<lambda>docs dir. Inl (LibraryError ''no API key'')),
      collection_count = (\<lambda>dir. Inr 0),
      retriever = (\<lambda>dir k question. Inr []),
      rag_chain = (\<lambda>dir k question. Inr ''unused'')\<rparr>) (\<lparr>settings_chunk_size = 1000, settings_chunk_overlap = 200, retrieval_top_k = 3\<rparr>) ''why?'' ''store'' None) ''message''
     = Some (PyStr ''Error querying vectorstore: Vectorstore at store is empty'') \<and>
   load_pdf (\<lparr>pdf_loader = (\<lambda>path. Inr [(PyStr ''page one'', PyDict [(''source'', PyStr path)])]),
      text_splitter = (\<lambda>csize coverlap docs. Inl (ValueError ''chunk overlap too large'')),
      from_documents = (\<lambda>docs dir. Inr (PyStr ''langchain'', PyStr ''c0ffee'')),
      collection_count = (\<lambda>dir. Inr 1),
      retriever = (\<lambda>dir k question. Inr [(PyStr ''page one'', PyDict [(''source'', PyStr ''a.pdf'')])]),
      rag_chain = (\<lambda>dir k question. Inr ''forty-two'')\<rparr>) ''a.pdf''
     = Inr [PyDict [(''page_content'', PyStr ''page one''),
                    (''metadata'', PyDict [(''source'', PyStr ''a.pdf'')])]] \<and>
   status_field (load_pdf_task (\<lparr>pdf_loader = (\<lambda>path. Inr [(PyStr ''page one'', PyDict [(''source'', PyStr path)])]),
      text_splitter = (\<lambda>csize coverlap docs. Inl (ValueError ''chunk overlap too large'')),
      from_documents = (\<lambda>docs dir. Inr (PyStr ''langchain'', PyStr ''c0ffee'')),
      collection_count = (\<lambda>dir. Inr 1),
      retriever = (\<lambda>dir k question. Inr [(PyStr ''page one'', PyDict [(''source'', PyStr ''a.pdf'')])]),
      rag_chain = (\<lambda>dir k question. Inr ''forty-two'')\<rparr>) ''a.pdf'') = Some (PyStr ''success'') \<and>
   returned_field (load_pdf_task (\<lparr>pdf_loader = (\<lambda>path. Inr [(PyStr ''page one'', PyDict [(''source'', PyStr path)])]),
      text_splitter = (\<lambda>csize coverlap docs. Inl (ValueError ''chunk overlap too large'')),
      from_documents = (\<lambda>docs dir. Inr (PyStr ''langchain'', PyStr ''c0ffee'')),
      collection_count = (\<lambda>dir. Inr 1),
      retriever = (\<lambda>dir k question. Inr [(PyStr ''page one'', PyDict [(''source'', PyStr ''a.pdf'')])]),
      rag_chain = (\<lambda>dir k question. Inr ''forty-two'')\<rparr>) ''a.pdf'') ''doc_count'' = Some (PyInt 1) \<and>
   create_vectorstore (\<lparr>pdf_loader = (\<lambda>path. Inr [(PyStr ''page one'', PyDict [(''source'', PyStr path)])]),
      text_splitter = (\<lambda>csize coverlap docs. Inl (ValueError ''chunk overlap too large'')),
      from_documents = (\<lambda>docs dir. Inr (PyStr ''langchain'', PyStr ''c0ffee'')),
      collection_count = (\<lambda>dir. Inr 1),
      retriever = (\<lambda>dir k question. Inr [(PyStr ''page one'', PyDict [(''source'', PyStr ''a.pdf'')])]),
      rag_chain = (\<lambda>dir k question. Inr ''forty-two'')\<rparr>) [] ''store''
     = Inr [(''collection_name'', PyStr ''langchain''), (''collection_id'', PyStr ''c0ffee''),
            (''chunk_count'', PyInt 0)] \<and>
   status_field (create_vectorstore_task (\<lparr>pdf_loader = (\<lambda>path. Inr [(PyStr ''page one'', PyDict [(''source'', PyStr path)])]),
      text_splitter = (\<lambda>csize coverlap docs. Inl (ValueError ''chunk overlap too large'')),
      from_documents = (\<lambda>docs dir. Inr (PyStr ''langchain'', PyStr ''c0ffee'')),
      collection_count = (\<lambda>dir. Inr 1),
      retriever = (\<lambda>dir k question. Inr [(PyStr ''page one'', PyDict [(''source'', PyStr ''a.pdf'')])]),
      rag_chain = (\<lambda>dir k question. Inr ''forty-two'')\<rparr>) [] ''store'') = Some (PyStr ''success'') \<and>
   returned_field (create_vectorstore_task (\<lparr>pdf_loader = (\<lambda>path. Inr [(PyStr ''page one'', PyDict [(''source'', PyStr path)])]),
      text_splitter = (\<lambda>csize coverlap docs. Inl (ValueError ''chunk overlap too large'')),
      from_documents = (\<lambda>docs dir. Inr (PyStr ''langchain'', PyStr ''c0ffee'')),
      collection_count = (\<lambda>dir. Inr 1),
      retriever = (\<lambda>dir k question. Inr [(PyStr ''page one'', PyDict [(''source'', PyStr ''a.pdf'')])]),
      rag_chain = (\<lambda>dir k question. Inr ''forty-two'')\<rparr>) [] ''store'') ''collection_id''
     = Some (PyStr ''c0ffee'') \<and>
   status_field (query_vectorstore_task (\<lparr>pdf_loader = (\<lambda>path. Inr [(PyStr ''page one'', PyDict [(''source'', PyStr path)])]),
      text_splitter = (\<lambda>csize coverlap docs. Inl (ValueError ''chunk overlap too large'')),
      from_documents = (\<lambda>docs dir. Inr (PyStr ''langchain'', PyStr ''c0ffee'')),
      collection_count = (\<lambda>dir. Inr 1),
      retriever = (\<lambda>dir k question. Inr [(PyStr ''page one'', PyDict [(''source'', PyStr ''a.pdf'')])]),
      rag_chain = (\<lambda>dir k question. Inr ''forty-two'')\<rparr>) (\<lparr>settings_chunk_size = 1000, settings_chunk_overlap = 200, retrieval_top_k = 3\<rparr>) ''why?'' ''store'' None)
     = Some (PyStr ''success'') \<and>
   returned_field (query_vectorstore_task (\<lparr>pdf_loader = (\<lambda>path. Inr [(PyStr ''page one'', PyDict [(''source'', PyStr path)])]),
      text_splitter = (\<lambda>csize coverlap docs. Inl (ValueError ''chunk overlap too large'')),
      from_documents = (\<lambda>docs dir. Inr (PyStr ''langchain'', PyStr ''c0ffee'')),
      collection_count = (\<lambda>dir. Inr 1),
      retriever = (\<lambda>dir k question. Inr [(PyStr ''page one'', PyDict [(''source'', PyStr ''a.pdf'')])]),
      rag_chain = (\<lambda>dir k question. Inr ''forty-two'')\<rparr>) (\<lparr>settings_chunk_size = 1000, settings_chunk_overlap = 200, retrieval_top_k = 3\<rparr>) ''why?'' ''store'' None) ''answer''
     = Some (PyStr ''forty-two'')"
proof -
  let ?L1 = "\<lparr>pdf_loader = (\<lambda>path. Inl (LibraryError ''file not found'')),
      text_splitter = (\<lambda>csize coverlap docs. Inr docs),
      from_documents = (\<lambda>docs dir. Inl (LibraryError ''no API key'')),
      collection_count = (\<lambda>dir. Inr 0),
      retriever = (\<lambda>dir k question. Inr []),
      rag_chain = (\<lambda>dir k question. Inr ''unused'')\<rparr>"
  let ?L2 = "\<lparr>pdf_loader = (\<lambda>path. Inr [(PyStr ''page one'', PyDict [(''source'', PyStr path)])]),
      text_splitter = (\<lambda>csize coverlap docs. Inl (ValueError ''chunk overlap too large'')),
      from_documents = (\<lambda>docs dir. Inr (PyStr ''langchain'', PyStr ''c0ffee'')),
      collection_count = (\<lambda>dir. Inr 1),
      retriever = (\<lambda>dir k question. Inr [(PyStr ''page one'', PyDict [(''source'', PyStr ''a.pdf'')])]),
      rag_chain = (\<lambda>dir k question. Inr ''forty-two'')\<rparr>"
  let ?S = "\<lparr>settings_chunk_size = 1000, settings_chunk_overlap = 200, retrieval_top_k = 3\<rparr>"
  have a1: "load_pdf ?L1 ''a.pdf'' = Inl (LibraryError ''file not found'')"
    by (simp add: load_pdf_def)
  have a2: "split_documents ?L1 ?S [PyNone] None None
              = Inl (TypeError ''object is not subscriptable with a string'')"
    by (simp add: split_documents_def Let_def)
  have a3: "create_vectorstore ?L1 [] ''store'' = Inl (LibraryError ''no API key'')"
    by (simp add: create_vectorstore_def)
  have a4: "query ?L1 ?S ''why?'' ''store'' None = Inl (ValueError ''Vectorstore at store is empty'')"
    by (simp add: query_def Let_def)
  have b1: "load_pdf ?L2 ''a.pdf''
     = Inr [PyDict [(''page_content'', PyStr ''page one''),
                    (''metadata'', PyDict [(''source'', PyStr ''a.pdf'')])]]"
    by (simp add: load_pdf_def doc_dict_def)
  have b3: "create_vectorstore ?L2 [] ''store''
     = Inr [(''collection_name'', PyStr ''langchain''), (''collection_id'', PyStr ''c0ffee''),
            (''chunk_count'', PyInt 0)]"
    by (simp add: create_vectorstore_def)
  have b4: "query ?L2 ?S ''why?'' ''store'' None
     = Inr [(''answer'', PyStr ''forty-two''),
            (''retrieved_chunks'',
               PyList [PyDict [(''content'', PyStr ''page one''),
                               (''metadata'', PyDict [(''source'', PyStr ''a.pdf'')])]]),
            (''sources'', PyList [PyStr ''a.pdf'']),
            (''context_used'', PyInt 1)]"
    by (simp add: query_def Let_def py_or_def)
  note i1 = rag_handlers_never_raise
      [of ?L1 "''a.pdf''" ?S "[PyNone]" None None "[]" "''store''" "''why?''" None]
  note i2 = rag_handlers_never_raise
      [of ?L2 "''a.pdf''" ?S "[PyNone]" None None "[]" "''store''" "''why?''" None]
  from i1 a1 have w1: "status_field (load_pdf_task ?L1 ''a.pdf'') = Some (PyStr ''error'') \<and>
      returned_field (load_pdf_task ?L1 ''a.pdf'') ''message''
        = Some (PyStr (''Error loading PDF: '' @ str_exc (LibraryError ''file not found'')))"
    by blast
  from i1 a2 have w2: "returned_field (split_documents_task ?L1 ?S [PyNone] None None) ''message''
        = Some (PyStr (''Error splitting documents: ''
             @ str_exc (TypeError ''object is not subscriptable with a string'')))"
    by blast
  from i1 a3 have w3: "status_field (create_vectorstore_task ?L1 [] ''store'') = Some (PyStr ''error'')"
    by blast
  from i1 a4 have w4: "returned_field (query_vectorstore_task ?L1 ?S ''why?'' ''store'' None) ''message''
        = Some (PyStr (''Error querying vectorstore: ''
             @ str_exc (ValueError ''Vectorstore at store is empty'')))"
    by blast
  from i2 b1 have v1: "status_field (load_pdf_task ?L2 ''a.pdf'') = Some (PyStr ''success'') \<and>
      returned_field (load_pdf_task ?L2 ''a.pdf'') ''doc_count''
        = Some (PyInt (int (length [PyDict [(''page_content'', PyStr ''page one''),
                    (''metadata'', PyDict [(''source'', PyStr ''a.pdf'')])]])))"
    by blast
  from i2 b3 have v3: "status_field (create_vectorstore_task ?L2 [] ''store'') = Some (PyStr ''success'') \<and>
      returned_field (create_vectorstore_task ?L2 [] ''store'') ''collection_id''
        = map_of [(''collection_name'', PyStr ''langchain''), (''collection_id'', PyStr ''c0ffee''),
            (''chunk_count'', PyInt 0)] ''collection_id''"
    by blast
  from i2 b4 have v4: "status_field (query_vectorstore_task ?L2 ?S ''why?'' ''store'' None)
        = Some (PyStr ''success'') \<and>
      returned_field (query_vectorstore_task ?L2 ?S ''why?'' ''store'' None) ''answer''
        = map_of [(''answer'', PyStr ''forty-two''),
            (''retrieved_chunks'',
               PyList [PyDict [(''content'', PyStr ''page one''),
                               (''metadata'', PyDict [(''source'', PyStr ''a.pdf'')])]]),
            (''sources'', PyList [PyStr ''a.pdf'']),
            (''context_used'', PyInt 1)] ''answer''"
    by blast
  from a1 a2 a3 a4 b1 b3 w1 w2 w3 w4 v1 v3 v4 show ?thesis by simp
qed

end
